theory Spec2Isabelle
  imports Complex_Main "HOL-Library.Multiset"
begin

section \<open>Values shared by the server and the mobile client\<close>

text \<open>
  A JavaScript exception is modelled by the message of the thrown \<open>Error\<close>.
  JSON values are what \<open>express.json()\<close> and \<open>response.json()\<close> hand to the
  code; a JSON number carries its numeric value.
\<close>

datatype exn = Error string

fun message :: "exn \<Rightarrow> string" where
  "message (Error m) = m"

datatype json =
    JNull
  | JBool bool
  | JNum rat
  | JStr string
  | JArr "json list"
  | JObj "(string \<times> json) list"

text \<open>
  JavaScript truthiness of a possibly \<open>undefined\<close> value (\<open>None\<close> is
  \<open>undefined\<close>): \<open>!v\<close> is \<open>\<not> truthy v\<close>. The falsy values are
  \<open>undefined\<close>, \<open>null\<close>, \<open>false\<close>, \<open>0\<close> and the empty string.
\<close>

fun truthy :: "json option \<Rightarrow> bool" where
  "truthy None = False"
| "truthy (Some JNull) = False"
| "truthy (Some (JBool b)) = b"
| "truthy (Some (JNum n)) = (n \<noteq> 0)"
| "truthy (Some (JStr s)) = (s \<noteq> [])"
| "truthy (Some (JArr xs)) = True"
| "truthy (Some (JObj kvs)) = True"

text \<open>Truthiness of a value that is a string or \<open>undefined\<close>.\<close>

fun truthy_str :: "string option \<Rightarrow> bool" where
  "truthy_str None = False"
| "truthy_str (Some s) = (s \<noteq> [])"

section \<open>Strings: \<open>split\<close> and \<open>trim\<close>\<close>

text \<open>
  A string is a list of code units below 256 (header values and the identifiers in this
  program are Latin-1). \<open>split_on sep s\<close> is \<open>s.split(sep)\<close> for a one-character
  separator: the pieces between the separators, \<open>[""]\<close> for the empty string.
\<close>

fun split_on :: "char \<Rightarrow> string \<Rightarrow> string list" where
  "split_on sep [] = [[]]"
| "split_on sep (c # cs) =
     (if c = sep then [] # split_on sep cs
      else (case split_on sep cs of
              [] \<Rightarrow> [[c]]
            | p # ps \<Rightarrow> (c # p) # ps))"

text \<open>
  The white space and line terminators of ECMAScript that are code units below 256:
  TAB, LF, VT, FF, CR, SPACE and NBSP. \<open>trim\<close> removes them at both ends.
\<close>

definition is_ws :: "char \<Rightarrow> bool" where
  "is_ws c = (c = CHR 0x09 \<or> c = CHR 0x0A \<or> c = CHR 0x0B \<or> c = CHR 0x0C
              \<or> c = CHR 0x0D \<or> c = CHR 0x20 \<or> c = CHR 0xA0)"

definition trimStart :: "string \<Rightarrow> string" where
  "trimStart s = dropWhile is_ws s"

definition trim :: "string \<Rightarrow> string" where
  "trim s = rev (dropWhile is_ws (rev (dropWhile is_ws s)))"

section \<open>The rate limiter (\<open>middleware/rateLimiter.js\<close>)\<close>

text \<open>
  The request as the middleware reads it: the \<open>x-forwarded-for\<close> header (a string
  or \<open>undefined\<close>), \<open>req.ip\<close> and \<open>req.connection.remoteAddress\<close>.
\<close>

record request =
  x_forwarded_for :: "string option"
  ip :: "string option"
  remoteAddress :: "string option"

text \<open>\<open>a || b\<close> on values that are strings or \<open>undefined\<close>.\<close>

definition js_or :: "string option \<Rightarrow> string option \<Rightarrow> string option" where
  "js_or a b = (if truthy_str a then a else b)"

text \<open>
  The key handed to the limiter. \<open>forwarded.split(",")[0]\<close> is \<open>undefined\<close> on
  an empty array, and \<open>.trim()\<close> on \<open>undefined\<close> throws a \<open>TypeError\<close>; the
  model keeps that branch.
\<close>

definition client_key :: "request \<Rightarrow> exn + string option" where
  "client_key req =
     (case x_forwarded_for req of
        Some forwarded \<Rightarrow>
          (case split_on CHR '','' forwarded of
             [] \<Rightarrow> Inl (Error ''Cannot read properties of undefined (reading 'trim')'')
           | tok # _ \<Rightarrow> Inr (Some (trim tok)))
      | None \<Rightarrow> Inr (js_or (ip req) (remoteAddress req)))"

text \<open>
  What the middleware does with the request: answer it, call \<open>next()\<close>, or call
  \<open>next(error)\<close>, which Express routes to the error handler.
\<close>

datatype mw_result =
    Responded nat string
  | Next
  | NextError exn

text \<open>
  \<open>ratelimit.limit\<close> is the hosted limiter, a parameter of the model: on a key and
  its own state it throws, or returns \<open>{success}\<close>. The result is what the middleware
  did, the lines it wrote with \<open>console.error\<close>, and the limiter's state.
\<close>

definition rateLimiter ::
  "(string option \<Rightarrow> 'l \<Rightarrow> (exn + bool) \<times> 'l) \<Rightarrow> request \<Rightarrow> 'l
     \<Rightarrow> mw_result \<times> string list \<times> 'l" where
  "rateLimiter limit req l =
     (case client_key req of
        Inl error \<Rightarrow> (NextError error, [''Rate limiter error:''], l)
      | Inr key \<Rightarrow>
          (case limit key l of
             (Inl error, l') \<Rightarrow> (NextError error, [''Rate limiter error:''], l')
           | (Inr success, l') \<Rightarrow>
               if \<not> success
               then (Responded 429 ''Too many requests, please try again later.'', [], l')
               else (Next, [], l')))"

text \<open>
  Express after the middleware: a response ends the request, \<open>next()\<close> runs the
  downstream handler, \<open>next(error)\<close> runs the error handler.
\<close>

definition dispatch :: "mw_result \<Rightarrow> 'r \<Rightarrow> (exn \<Rightarrow> 'r) \<Rightarrow> (nat \<Rightarrow> string \<Rightarrow> 'r) \<Rightarrow> 'r" where
  "dispatch res downstream on_error respond =
     (case res of
        Responded st msg \<Rightarrow> respond st msg
      | Next \<Rightarrow> downstream
      | NextError e \<Rightarrow> on_error e)"

text \<open>The spec's words for the key: the text before the first comma.\<close>

definition first_token :: "string \<Rightarrow> string" where
  "first_token s = takeWhile (\<lambda>c. c \<noteq> CHR '','') s"

text \<open>
  The spec's words for the whole derivation: the first comma-separated token of the
  forwarded-for header, trimmed, when the header is present; otherwise the peer address,
  which Express gives as \<open>req.ip\<close> and the socket as \<open>remoteAddress\<close>.
\<close>

definition spec_client_key :: "request \<Rightarrow> string option" where
  "spec_client_key req =
     (case x_forwarded_for req of
        Some h \<Rightarrow> Some (trim (first_token h))
      | None \<Rightarrow> js_or (ip req) (remoteAddress req))"

text \<open>A limiter that allows every request and records the keys it is asked about.\<close>

definition recording_limiter :: "string option \<Rightarrow> string option list \<Rightarrow> (exn + bool) \<times> string option list" where
  "recording_limiter key seen = (Inr True, seen @ [key])"

section \<open>\<open>parseInt\<close>\<close>

text \<open>
  \<open>parseInt(s)\<close> with no radix, after ECMAScript: leading white space is skipped, a
  sign is read, a prefix \<open>0x\<close> or \<open>0X\<close> selects radix 16, and the longest run of
  digits of the radix is the numeral; everything after it is ignored. The result is
  \<open>NaN\<close> (\<open>None\<close>) exactly when that run is empty. The callers here only ask
  \<open>isNaN\<close>, so the value is kept as an exact integer.
\<close>

definition digit_val :: "char \<Rightarrow> nat option" where
  "digit_val c =
     (let n = (of_char c :: nat) in
      if 48 \<le> n \<and> n \<le> 57 then Some (n - 48)
      else if 97 \<le> n \<and> n \<le> 122 then Some (n - 87)
      else if 65 \<le> n \<and> n \<le> 90 then Some (n - 55)
      else None)"

definition is_radix_digit :: "nat \<Rightarrow> char \<Rightarrow> bool" where
  "is_radix_digit R c = (case digit_val c of Some d \<Rightarrow> d < R | None \<Rightarrow> False)"

definition digits_value :: "nat \<Rightarrow> string \<Rightarrow> int" where
  "digits_value R Z =
     foldl (\<lambda>acc c. acc * int R + (case digit_val c of Some d \<Rightarrow> int d | None \<Rightarrow> 0)) 0 Z"

definition parseInt :: "string \<Rightarrow> int option" where
  "parseInt inputString =
     (let S = trimStart inputString;
          sign = (if S \<noteq> [] \<and> hd S = CHR ''-'' then - 1 else 1 :: int);
          S1 = (if S \<noteq> [] \<and> (hd S = CHR ''+'' \<or> hd S = CHR ''-'') then tl S else S);
          hex = (take 2 S1 = ''0x'' \<or> take 2 S1 = ''0X'');
          R = (if hex then 16 else 10 :: nat);
          S2 = (if hex then drop 2 S1 else S1);
          Z = takeWhile (is_radix_digit R) S2
      in if Z = [] then None else Some (sign * digits_value R Z))"

definition isNaN :: "int option \<Rightarrow> bool" where
  "isNaN x = (x = None)"

text \<open>
  The spec's words for a well-formed id, "numeric": a non-empty run of decimal digits.
\<close>

definition is_decimal_digit :: "char \<Rightarrow> bool" where
  "is_decimal_digit c = (48 \<le> (of_char c :: nat) \<and> (of_char c :: nat) \<le> 57)"

definition numeric_id :: "string \<Rightarrow> bool" where
  "numeric_id s = (s \<noteq> [] \<and> list_all is_decimal_digit s)"

section \<open>The transactions service\<close>

text \<open>
  A stored transaction. The handler passes \<open>userId\<close>, \<open>title\<close> and
  \<open>category\<close> to the store as it received them, so they are JSON values; \<open>amount\<close>
  is a number by then. \<open>tid\<close>, \<open>user_id\<close> and \<open>created_at\<close> are the record's
  \<open>id\<close>, \<open>userId\<close> and \<open>createdAt\<close>.
\<close>

record transaction =
  tid :: nat
  user_id :: json
  title :: json
  amount :: rat
  category :: json
  created_at :: nat

text \<open>The argument of \<open>db.create\<close>.\<close>

record new_item =
  new_userId :: json
  new_title :: json
  new_amount :: rat
  new_category :: json

text \<open>
  A response: \<open>res.status(st).json(body)\<close>, with the lines the handler wrote with
  \<open>console.error\<close> before it.
\<close>

datatype body =
    Message string
  | Item transaction
  | Items "transaction list"
  | Deleted string transaction
  | SummaryOf rat rat rat

record reply =
  status :: nat
  payload :: body
  logged :: "string list"

definition respond :: "nat \<Rightarrow> body \<Rightarrow> reply" where
  "respond st b = \<lparr>status = st, payload = b, logged = []\<rparr>"

definition server_error :: "string \<Rightarrow> reply" where
  "server_error line = \<lparr>status = 500, payload = Message ''Internal server error'', logged = [line]\<rparr>"

text \<open>
  \<open>createItem\<close> of the CRUD guide. \<open>db.create\<close> is a parameter: on the new item
  and the store's state it throws, or returns the created record. \<open>reqBody\<close> is the
  parsed JSON object, a field that is not there reads as \<open>undefined\<close>.
\<close>

definition createItem ::
  "(new_item \<Rightarrow> 's \<Rightarrow> (exn + transaction) \<times> 's) \<Rightarrow> (string \<rightharpoonup> json) \<Rightarrow> 's \<Rightarrow> reply \<times> 's" where
  "createItem db_create reqBody s =
     (let userId = reqBody ''userId''; title = reqBody ''title'';
          amount = reqBody ''amount''; category = reqBody ''category''
      in if \<not> truthy userId \<or> \<not> truthy title \<or> amount = None \<or> \<not> truthy category
         then (respond 400 (Message ''All fields are required: userId, title, amount, category''), s)
         else (case (userId, title, amount, category) of
                 (Some u, Some t, Some (JNum a), Some c) \<Rightarrow>
                   (case db_create \<lparr>new_userId = u, new_title = t, new_amount = a, new_category = c\<rparr> s of
                      (Inl error, s') \<Rightarrow> (server_error ''Error creating item:'', s')
                    | (Inr newItem, s') \<Rightarrow> (respond 201 (Item newItem), s'))
               | _ \<Rightarrow> (respond 400 (Message ''Amount must be a number''), s)))"

text \<open>
  \<open>deleteItem\<close> of the CRUD guide. \<open>item_id\<close> is the route parameter \<open>id\<close>, a
  string (\<open>!id\<close> holds of the empty string only);
  \<open>db.deleteById\<close> throws, or returns the deleted record, or nothing.
\<close>

definition deleteItem ::
  "(string \<Rightarrow> 's \<Rightarrow> (exn + transaction option) \<times> 's) \<Rightarrow> string \<Rightarrow> 's \<Rightarrow> reply \<times> 's" where
  "deleteItem db_deleteById item_id s =
     (if item_id = [] then (respond 400 (Message ''Item ID is required''), s)
      else if isNaN (parseInt item_id) then (respond 400 (Message ''Invalid item ID format''), s)
      else (case db_deleteById item_id s of
              (Inl error, s') \<Rightarrow> (server_error ''Error deleting item:'', s')
            | (Inr None, s') \<Rightarrow> (respond 404 (Message ''Item not found''), s')
            | (Inr (Some deletedItem), s') \<Rightarrow>
                (respond 200 (Deleted ''Item deleted successfully'' deletedItem), s')))"

text \<open>
  \<open>getItemsByUserId\<close> of the CRUD guide, the handler that lists a user's items.
  \<open>userId\<close> is the route parameter, a string (\<open>!userId\<close> holds of the empty string
  only); \<open>limit\<close> and \<open>offset\<close> are the optional query parameters, handed on to
  \<open>db.findByUserId\<close>, which throws, or returns the items. The handler answers with
  the items as they come: it does not sort them.
\<close>

definition getItemsByUserId ::
  "(string \<Rightarrow> string option \<times> string option \<Rightarrow> 's \<Rightarrow> (exn + transaction list) \<times> 's)
     \<Rightarrow> string \<Rightarrow> string option \<Rightarrow> string option \<Rightarrow> 's \<Rightarrow> reply \<times> 's" where
  "getItemsByUserId db_findByUserId userId limit offset s =
     (if userId = [] then (respond 400 (Message ''User ID is required''), s)
      else (case db_findByUserId userId (limit, offset) s of
              (Inl error, s') \<Rightarrow> (server_error ''Error fetching items:'', s')
            | (Inr items, s') \<Rightarrow> (respond 200 (Items items), s')))"

section \<open>The transaction store\<close>

text \<open>
  Modelled from the spec: the Transaction Store (the module behind \<open>db\<close>, and the
  queries of the transactions controller) is not among the repository's files. The
  spec's words: a single table of transactions; \<open>id\<close> and \<open>createdAt\<close> are assigned
  by the store on creation; deletion is physical; any unexpected failure of the store
  surfaces as an error. \<open>online\<close> says whether the store can be reached, \<open>now\<close> is
  its clock.
\<close>

record store =
  rows :: "transaction list"
  nextId :: nat
  now :: nat
  online :: bool

text \<open>Modelled from the spec: the error of a store that cannot be reached.\<close>

definition store_down :: exn where
  "store_down = Error ''the store cannot be reached''"

text \<open>
  Modelled from the spec: \<open>db.create\<close>, which is not among the repository's files.
  It appends one record with the next id and the clock's time.
\<close>

definition db_create :: "new_item \<Rightarrow> store \<Rightarrow> (exn + transaction) \<times> store" where
  "db_create d s =
     (if \<not> online s then (Inl store_down, s)
      else (let t = \<lparr>tid = nextId s, user_id = new_userId d, title = new_title d,
                      amount = new_amount d, category = new_category d, created_at = now s\<rparr>
            in (Inr t, s\<lparr>rows := rows s @ [t], nextId := Suc (nextId s)\<rparr>)))"

text \<open>
  Modelled from the spec: \<open>db.deleteById\<close>, which is not among the repository's
  files. Ids are numbers; an id text that is not a decimal numeral cannot be compared
  with them and the query fails. Otherwise the record with that id is removed and
  returned, or nothing is.
\<close>

definition db_deleteById :: "string \<Rightarrow> store \<Rightarrow> (exn + transaction option) \<times> store" where
  "db_deleteById i s =
     (if \<not> online s then (Inl store_down, s)
      else if \<not> numeric_id i then (Inl (Error ''invalid input syntax for an id''), s)
      else (let n = nat (digits_value 10 i) in
            case find (\<lambda>t. tid t = n) (rows s) of
              None \<Rightarrow> (Inr None, s)
            | Some t \<Rightarrow> (Inr (Some t), s\<lparr>rows := filter (\<lambda>t. tid t \<noteq> n) (rows s)\<rparr>)))"

text \<open>
  \<open>db.findByUserId\<close> as the guide's SQL sample writes it,
  \<open>SELECT * FROM items WHERE user_id = ${userId}\<close>, on the table of the store above:
  the rows of the user, as the table holds them. The query has no \<open>ORDER BY\<close> and
  takes no pagination options (the guide's two other samples, \<open>Item.find({ userId })\<close>
  and \<open>findMany({ where: { userId } })\<close>, order nothing either). It throws when the
  store cannot be reached.
\<close>

definition db_findByUserId ::
  "string \<Rightarrow> string option \<times> string option \<Rightarrow> store \<Rightarrow> (exn + transaction list) \<times> store" where
  "db_findByUserId userId pagination s =
     (if \<not> online s then (Inl store_down, s)
      else (Inr (filter (\<lambda>t. user_id t = JStr userId) (rows s)), s))"

text \<open>
  Modelled from the spec: "\<open>id\<close>: unique identifier, assigned by the store". No two
  rows share an id, and every id in use is below the next one the store assigns.
\<close>

definition ids_unique :: "store \<Rightarrow> bool" where
  "ids_unique s = (distinct (map tid (rows s)) \<and> list_all (\<lambda>t. tid t < nextId s) (rows s))"

text \<open>
  Modelled from the spec: an aggregate query, \<open>COALESCE(SUM(amount), 0)\<close> over the
  rows that satisfy a condition, computed in one pass over the table.
\<close>

definition sum_where :: "(transaction \<Rightarrow> bool) \<Rightarrow> transaction list \<Rightarrow> rat" where
  "sum_where P ts = foldl (\<lambda>acc t. if P t then acc + amount t else acc) 0 ts"

text \<open>
  Modelled from the spec: \<open>Summary(userId)\<close>, whose controller is not among the
  repository's files. \<open>balance\<close> is the sum of all amounts of the user, \<open>income\<close> the
  sum of the positive ones, \<open>expense\<close> the sum of the negative ones (a number that is
  at most zero: the sign convention fixed here); three aggregate queries; a failure of
  the store is a 500.
\<close>

definition Summary :: "json \<Rightarrow> store \<Rightarrow> reply \<times> store" where
  "Summary u s =
     (if \<not> online s then (server_error ''Error getting the summary'', s)
      else (let balance = sum_where (\<lambda>t. user_id t = u) (rows s);
                income = sum_where (\<lambda>t. user_id t = u \<and> amount t > 0) (rows s);
                expense = sum_where (\<lambda>t. user_id t = u \<and> amount t < 0) (rows s)
            in (respond 200 (SummaryOf balance income expense), s)))"

text \<open>
  The scenario of the spec's section 8, through the handlers: on an empty store, create
  A (user 1, amount 100), then B (user 1, amount -30), then C (user 2, amount 50), the
  store's clock advancing between the requests.
\<close>

definition empty_store :: store where
  "empty_store = \<lparr>rows = [], nextId = 1, now = 0, online = True\<rparr>"

definition tick :: "store \<Rightarrow> store" where
  "tick s = s\<lparr>now := Suc (now s)\<rparr>"

definition item_body :: "json \<Rightarrow> string \<Rightarrow> rat \<Rightarrow> string \<Rightarrow> (string \<rightharpoonup> json)" where
  "item_body u t a c =
     [''userId'' \<mapsto> u, ''title'' \<mapsto> JStr t, ''amount'' \<mapsto> JNum a, ''category'' \<mapsto> JStr c]"

definition scenario :: store where
  "scenario =
     snd (createItem db_create (item_body (JNum 2) ''C'' 50 ''gift'')
       (tick (snd (createItem db_create (item_body (JNum 1) ''B'' (- 30) ''food'')
         (tick (snd (createItem db_create (item_body (JNum 1) ''A'' 100 ''salary'')
           empty_store)))))))"

definition item_A :: transaction where
  "item_A = \<lparr>tid = 1, user_id = JNum 1, title = JStr ''A'', amount = 100,
             category = JStr ''salary'', created_at = 0\<rparr>"

definition item_B :: transaction where
  "item_B = \<lparr>tid = 2, user_id = JNum 1, title = JStr ''B'', amount = - 30,
             category = JStr ''food'', created_at = 1\<rparr>"

definition item_C :: transaction where
  "item_C = \<lparr>tid = 3, user_id = JNum 2, title = JStr ''C'', amount = 50,
             category = JStr ''gift'', created_at = 2\<rparr>"

text \<open>
  The same three requests with the user ids a route parameter can name, the strings
  \<open>user_1\<close> and \<open>user_2\<close>; \<open>wallet_A\<close> and \<open>wallet_B\<close> are the two records
  of \<open>user_1\<close>, A created before B.
\<close>

definition wallet :: store where
  "wallet =
     snd (createItem db_create (item_body (JStr ''user_2'') ''C'' 50 ''gift'')
       (tick (snd (createItem db_create (item_body (JStr ''user_1'') ''B'' (- 30) ''food'')
         (tick (snd (createItem db_create (item_body (JStr ''user_1'') ''A'' 100 ''salary'')
           empty_store)))))))"

definition wallet_A :: transaction where
  "wallet_A = \<lparr>tid = 1, user_id = JStr ''user_1'', title = JStr ''A'', amount = 100,
               category = JStr ''salary'', created_at = 0\<rparr>"

definition wallet_B :: transaction where
  "wallet_B = \<lparr>tid = 2, user_id = JStr ''user_1'', title = JStr ''B'', amount = - 30,
               category = JStr ''food'', created_at = 1\<rparr>"

text \<open>
  The spec's words for the order of a listing: by creation time descending, the most
  recent first.
\<close>

definition newest_first :: "transaction list \<Rightarrow> bool" where
  "newest_first ts = sorted_wrt (\<lambda>a b. created_at b \<le> created_at a) ts"

section \<open>The mobile hook (\<open>hooks/useTransactions.js\<close>)\<close>

text \<open>
  The hook's state, and what a run of one of its functions does, as a trace of events:
  the requests it issues, the state setters it calls, the lines it logs and the alerts
  it shows. \<open>run\<close> replays a trace on the state.
\<close>

record hook_state =
  transactions :: json
  summary :: json
  isLoading :: bool

definition initial_state :: hook_state where
  "initial_state =
     \<lparr>transactions = JArr [],
      summary = JObj [(''balance'', JNum 0), (''income'', JNum 0), (''expense'', JNum 0)],
      isLoading = True\<rparr>"

datatype http_method = GET | DELETE

datatype event =
    Fetch http_method string
  | SetTransactions json
  | SetSummary json
  | SetIsLoading bool
  | ConsoleError string exn
  | Alert string string

fun apply_event :: "hook_state \<Rightarrow> event \<Rightarrow> hook_state" where
  "apply_event st (SetTransactions d) = st\<lparr>transactions := d\<rparr>"
| "apply_event st (SetSummary d) = st\<lparr>summary := d\<rparr>"
| "apply_event st (SetIsLoading b) = st\<lparr>isLoading := b\<rparr>"
| "apply_event st (Fetch m url) = st"
| "apply_event st (ConsoleError line e) = st"
| "apply_event st (Alert t m) = st"

definition run :: "hook_state \<Rightarrow> event list \<Rightarrow> hook_state" where
  "run st es = foldl apply_event st es"

text \<open>
  The network, a parameter of the model: \<open>fetch\<close> rejects, or resolves to a response
  with a status and a body, which \<open>response.json()\<close> parses (\<open>None\<close>: the body is not
  JSON and \<open>response.json()\<close> rejects). \<open>completes\<close> is which of the two requests of
  \<open>loadData\<close> settles first.
\<close>

datatype fetch_result = NetworkError string | Response nat "json option"

datatype order = TransactionsFirst | SummaryFirst

record env =
  net :: "http_method \<Rightarrow> string \<Rightarrow> fetch_result"
  completes :: order

text \<open>A network that gives every request the same result.\<close>

definition constant_net :: "fetch_result \<Rightarrow> order \<Rightarrow> env" where
  "constant_net r ord = \<lparr>net = (\<lambda>m url. r), completes = ord\<rparr>"

definition API_URL :: string where
  "API_URL = ''https://rn-wallet-szfl.onrender.com/api''"

text \<open>\<open>${userId}\<close> in a template literal, on a string or \<open>undefined\<close>.\<close>

fun template :: "string option \<Rightarrow> string" where
  "template None = ''undefined''"
| "template (Some s) = s"

text \<open>
  An asynchronous function after its first \<open>await\<close>: the events of the rest of its
  run, and whether its promise is fulfilled (\<open>Inr\<close>) or rejected (\<open>Inl\<close>).
\<close>

type_synonym task = "event list \<times> (exn + unit)"

definition try_catch :: "task \<Rightarrow> (exn \<Rightarrow> task) \<Rightarrow> task" where
  "try_catch body handler =
     (case body of
        (es, Inr u) \<Rightarrow> (es, Inr u)
      | (es, Inl error) \<Rightarrow> (case handler error of (es', r) \<Rightarrow> (es @ es', r)))"

text \<open>
  The \<open>try\<close> blocks of \<open>fetchTransaction\<close> and \<open>fetchSummary\<close> once the request
  has settled: \<open>await fetch\<close>, \<open>await response.json()\<close>, the setter.
\<close>

definition fetch_json :: "fetch_result \<Rightarrow> (json \<Rightarrow> event) \<Rightarrow> task" where
  "fetch_json r setter =
     (case r of
        NetworkError m \<Rightarrow> ([], Inl (Error m))
      | Response st parsed \<Rightarrow>
          (case parsed of
             None \<Rightarrow> ([], Inl (Error ''JSON Parse error''))
           | Some data \<Rightarrow> ([setter data], Inr ())))"

text \<open>
  \<open>fetchTransaction\<close> and \<open>fetchSummary\<close>: the events up to the first \<open>await\<close>
  (the request is issued), and the rest.
\<close>

definition fetchTransaction :: "string option \<Rightarrow> env \<Rightarrow> event list \<times> task" where
  "fetchTransaction userId e =
     (let url = API_URL @ ''/transactions/'' @ template userId
      in ([Fetch GET url],
          try_catch (fetch_json (net e GET url) SetTransactions)
            (\<lambda>error. ([ConsoleError ''Error fetching transactions'' error], Inr ()))))"

definition fetchSummary :: "string option \<Rightarrow> env \<Rightarrow> event list \<times> task" where
  "fetchSummary userId e =
     (let url = API_URL @ ''/transactions/summary/'' @ template userId
      in ([Fetch GET url],
          try_catch (fetch_json (net e GET url) SetSummary)
            (\<lambda>error. ([ConsoleError ''Error fetching transactions'' error], Inr ()))))"

text \<open>
  \<open>Promise.all\<close> of two tasks that settle in the given order: it rejects as soon as one
  rejects, while the other still runs to its end; it is fulfilled when both are. The
  result is the events before \<open>Promise.all\<close> settles, how it settles, and the events
  after.
\<close>

definition promise_all :: "order \<Rightarrow> task \<Rightarrow> task \<Rightarrow> event list \<times> (exn + unit) \<times> event list" where
  "promise_all ord p1 p2 =
     (let (a, b) = (case ord of TransactionsFirst \<Rightarrow> (p1, p2) | SummaryFirst \<Rightarrow> (p2, p1))
      in case snd a of
           Inl error \<Rightarrow> (fst a, Inl error, fst b)
         | Inr _ \<Rightarrow>
             (case snd b of
                Inl error \<Rightarrow> (fst a @ fst b, Inl error, [])
              | Inr _ \<Rightarrow> (fst a @ fst b, Inr (), [])))"

text \<open>
  \<open>loadData\<close>, in two parts: what runs at the call, up to the \<open>await\<close> (the flag is
  set and both requests are issued), and what runs afterwards (\<open>catch\<close> and
  \<open>finally\<close> run when \<open>Promise.all\<close> settles).
\<close>

definition loadData_sync :: "string option \<Rightarrow> env \<Rightarrow> event list" where
  "loadData_sync userId e =
     (if \<not> truthy_str userId then []
      else [SetIsLoading True] @ fst (fetchTransaction userId e) @ fst (fetchSummary userId e))"

definition loadData_async :: "string option \<Rightarrow> env \<Rightarrow> event list" where
  "loadData_async userId e =
     (if \<not> truthy_str userId then []
      else (case promise_all (completes e) (snd (fetchTransaction userId e)) (snd (fetchSummary userId e)) of
              (before, settled, after) \<Rightarrow>
                before
                @ (case settled of Inl error \<Rightarrow> [ConsoleError ''Error loading data'' error] | Inr _ \<Rightarrow> [])
                @ [SetIsLoading False]
                @ after))"

definition loadData :: "string option \<Rightarrow> env \<Rightarrow> event list" where
  "loadData userId e = loadData_sync userId e @ loadData_async userId e"

text \<open>\<open>response.ok\<close>: the status is in the range 200 to 299.\<close>

definition ok :: "nat \<Rightarrow> bool" where
  "ok st = (200 \<le> st \<and> st \<le> 299)"

text \<open>
  \<open>deleteTransactions\<close>. \<open>loadData()\<close> is called and not awaited: its first part
  runs before the alert, the rest after.
\<close>

definition deleteTransactions :: "string \<Rightarrow> string option \<Rightarrow> env \<Rightarrow> event list" where
  "deleteTransactions item_id userId e =
     (let url = API_URL @ ''/transactions/'' @ item_id
      in Fetch DELETE url #
         (case (case net e DELETE url of
                  NetworkError m \<Rightarrow> Inl (Error m)
                | Response st parsed \<Rightarrow>
                    if \<not> ok st then Inl (Error ''Failed to delete transaction'') else Inr ())
          of
            Inl error \<Rightarrow>
              [ConsoleError ''Error deleting transaction'' error, Alert ''Error'' (message error)]
          | Inr _ \<Rightarrow>
              loadData_sync userId e
              @ [Alert ''Success'' ''Transaction deleted successfully'']
              @ loadData_async userId e))"

section \<open>Properties of the string functions\<close>

lemma split_on_not_Nil: "split_on sep s \<noteq> []"
  by (induction s) (auto split: list.splits)

lemma hd_split_on: "hd (split_on sep s) = takeWhile (\<lambda>c. c \<noteq> sep) s"
proof (induction s)
  case Nil
  show ?case by simp
next
  case (Cons c cs)
  show ?case
  proof (cases "c = sep")
    case True
    then show ?thesis by simp
  next
    case False
    obtain p ps where ps: "split_on sep cs = p # ps"
      using split_on_not_Nil [of sep cs] by (cases "split_on sep cs") auto
    with Cons False show ?thesis by simp
  qed
qed

lemma split_on_first: "\<exists>ps. split_on sep s = takeWhile (\<lambda>c. c \<noteq> sep) s # ps"
proof -
  obtain p ps where ps: "split_on sep s = p # ps"
    using split_on_not_Nil [of sep s] by (cases "split_on sep s") auto
  with hd_split_on [of sep s] show ?thesis by simp
qed

lemma trim_no_leading_ws: "trim s \<noteq> [] \<Longrightarrow> \<not> is_ws (hd (trim s))"
proof -
  assume ne: "trim s \<noteq> []"
  let ?d = "dropWhile is_ws s"
  let ?r = "dropWhile is_ws (rev ?d)"
  from ne have r_ne: "?r \<noteq> []" by (simp add: trim_def)
  have d_ne: "?d \<noteq> []"
  proof
    assume "?d = []"
    then have "?r = []" by (simp only: rev.simps dropWhile.simps)
    with r_ne show False by simp
  qed
  have "hd (rev ?r) = last ?r" using r_ne by (simp add: hd_rev)
  also have "last ?r = last (rev ?d)"
    using r_ne by (metis append_Nil2 last_appendR takeWhile_dropWhile_id)
  also have "\<dots> = hd ?d" using d_ne by (simp add: last_rev)
  finally have "hd (trim s) = hd ?d" by (simp add: trim_def)
  moreover have "\<not> is_ws (hd ?d)" using d_ne by (rule hd_dropWhile)
  ultimately show ?thesis by simp
qed

lemma trim_no_trailing_ws: "trim s \<noteq> [] \<Longrightarrow> \<not> is_ws (last (trim s))"
proof -
  assume ne: "trim s \<noteq> []"
  let ?r = "dropWhile is_ws (rev (dropWhile is_ws s))"
  from ne have r_ne: "?r \<noteq> []" by (simp add: trim_def)
  have "last (trim s) = hd ?r" using r_ne by (simp add: trim_def last_rev)
  moreover have "\<not> is_ws (hd ?r)" using r_ne by (rule hd_dropWhile)
  ultimately show ?thesis by simp
qed

lemma first_token_no_comma: "CHR '','' \<notin> set (first_token s)"
  unfolding first_token_def by (induction s) auto

lemma set_trim_subset: "set (trim s) \<subseteq> set s"
  by (auto simp: trim_def dest!: set_dropWhileD)

lemma client_key_forwarded:
  "x_forwarded_for req = Some h \<Longrightarrow> client_key req = Inr (Some (trim (first_token h)))"
  using split_on_first [of "CHR '',''" h]
  by (auto simp: client_key_def first_token_def)

lemma client_key_peer:
  "x_forwarded_for req = None \<Longrightarrow> client_key req = Inr (js_or (ip req) (remoteAddress req))"
  by (simp add: client_key_def)

lemma client_key_eq: "client_key req = Inr (spec_client_key req)"
  by (cases "x_forwarded_for req")
     (simp_all add: client_key_peer client_key_forwarded spec_client_key_def)

lemma trim_first_token_no_comma: "CHR '','' \<notin> set (trim (first_token h))"
  using set_trim_subset [of "first_token h"] first_token_no_comma [of h] by blast

section \<open>Properties of the hook's functions\<close>

lemma run_append: "run st (xs @ ys) = run (run st xs) ys"
  by (simp add: run_def)

lemma run_Cons: "run st (x # xs) = run (apply_event st x) xs"
  by (simp add: run_def)

lemma run_Nil: "run st [] = st"
  by (simp add: run_def)

lemma fetch_json_caught:
  "try_catch (fetch_json r setter) (\<lambda>error. ([ConsoleError line error], Inr ()))
     = (case r of
          NetworkError m \<Rightarrow> ([ConsoleError line (Error m)], Inr ())
        | Response st None \<Rightarrow> ([ConsoleError line (Error ''JSON Parse error'')], Inr ())
        | Response st (Some data) \<Rightarrow> ([setter data], Inr ()))"
  by (simp add: try_catch_def fetch_json_def split: fetch_result.splits option.splits)

lemma fetchTransaction_fulfilled: "snd (snd (fetchTransaction userId e)) = Inr ()"
  by (simp add: fetchTransaction_def fetch_json_caught Let_def
      split: fetch_result.splits option.splits)

lemma fetchSummary_fulfilled: "snd (snd (fetchSummary userId e)) = Inr ()"
  by (simp add: fetchSummary_def fetch_json_caught Let_def
      split: fetch_result.splits option.splits)

lemma fetchTransaction_issue:
  "fst (fetchTransaction userId e) = [Fetch GET (API_URL @ ''/transactions/'' @ template userId)]"
  by (simp add: fetchTransaction_def Let_def)

lemma fetchSummary_issue:
  "fst (fetchSummary userId e) = [Fetch GET (API_URL @ ''/transactions/summary/'' @ template userId)]"
  by (simp add: fetchSummary_def Let_def)

lemma promise_all_fulfilled:
  "snd p1 = Inr () \<Longrightarrow> snd p2 = Inr () \<Longrightarrow>
   promise_all ord p1 p2
     = ((case ord of TransactionsFirst \<Rightarrow> fst p1 @ fst p2 | SummaryFirst \<Rightarrow> fst p2 @ fst p1),
        Inr (), [])"
  by (cases ord) (simp_all add: promise_all_def)

lemma loadData_async_truthy:
  "truthy_str userId \<Longrightarrow>
   loadData_async userId e
     = (case completes e of
          TransactionsFirst \<Rightarrow> fst (snd (fetchTransaction userId e)) @ fst (snd (fetchSummary userId e))
        | SummaryFirst \<Rightarrow> fst (snd (fetchSummary userId e)) @ fst (snd (fetchTransaction userId e)))
       @ [SetIsLoading False]"
  by (simp add: loadData_async_def
      promise_all_fulfilled [OF fetchTransaction_fulfilled fetchSummary_fulfilled])

lemma loadData_sync_truthy:
  "truthy_str userId \<Longrightarrow>
   loadData_sync userId e
     = [SetIsLoading True,
        Fetch GET (API_URL @ ''/transactions/'' @ template userId),
        Fetch GET (API_URL @ ''/transactions/summary/'' @ template userId)]"
  by (simp add: loadData_sync_def fetchTransaction_issue fetchSummary_issue)

lemma loadData_falsy: "\<not> truthy_str userId \<Longrightarrow> loadData userId e = []"
  by (simp add: loadData_def loadData_sync_def loadData_async_def)

lemma isLoading_after_clear: "isLoading (run st (es @ [SetIsLoading False])) = False"
  by (simp add: run_append run_Cons run_Nil)

lemma fetchTransaction_settles:
  "snd (fetchTransaction userId e)
     = (case net e GET (API_URL @ ''/transactions/'' @ template userId) of
          NetworkError m \<Rightarrow> ([ConsoleError ''Error fetching transactions'' (Error m)], Inr ())
        | Response st None \<Rightarrow>
            ([ConsoleError ''Error fetching transactions'' (Error ''JSON Parse error'')], Inr ())
        | Response st (Some data) \<Rightarrow> ([SetTransactions data], Inr ()))"
  by (simp add: fetchTransaction_def fetch_json_caught Let_def)

lemma fetchSummary_settles:
  "snd (fetchSummary userId e)
     = (case net e GET (API_URL @ ''/transactions/summary/'' @ template userId) of
          NetworkError m \<Rightarrow> ([ConsoleError ''Error fetching transactions'' (Error m)], Inr ())
        | Response st None \<Rightarrow>
            ([ConsoleError ''Error fetching transactions'' (Error ''JSON Parse error'')], Inr ())
        | Response st (Some data) \<Rightarrow> ([SetSummary data], Inr ()))"
  by (simp add: fetchSummary_def fetch_json_caught Let_def)

lemma fetchTransaction_events:
  "x \<in> set (fst (snd (fetchTransaction userId e))) \<Longrightarrow>
     (\<exists>d. x = SetTransactions d) \<or> (\<exists>err. x = ConsoleError ''Error fetching transactions'' err)"
  by (auto simp: fetchTransaction_settles split: fetch_result.splits option.splits)

lemma fetchSummary_events:
  "x \<in> set (fst (snd (fetchSummary userId e))) \<Longrightarrow>
     (\<exists>d. x = SetSummary d) \<or> (\<exists>err. x = ConsoleError ''Error fetching transactions'' err)"
  by (auto simp: fetchSummary_settles split: fetch_result.splits option.splits)

lemma fetchTransaction_settled:
  "\<exists>t. fst (snd (fetchTransaction userId e)) = [t]
     \<and> ((\<exists>d. t = SetTransactions d) \<or> (\<exists>err. t = ConsoleError ''Error fetching transactions'' err))
     \<and> (\<forall>code d. net e GET (API_URL @ ''/transactions/'' @ template userId) = Response code (Some d)
            \<longrightarrow> t = SetTransactions d)"
  by (auto simp: fetchTransaction_settles split: fetch_result.splits option.splits)

lemma fetchSummary_settled:
  "\<exists>t. fst (snd (fetchSummary userId e)) = [t]
     \<and> ((\<exists>d. t = SetSummary d) \<or> (\<exists>err. t = ConsoleError ''Error fetching transactions'' err))
     \<and> (\<forall>code d. net e GET (API_URL @ ''/transactions/summary/'' @ template userId) = Response code (Some d)
            \<longrightarrow> t = SetSummary d)"
  by (auto simp: fetchSummary_settles split: fetch_result.splits option.splits)

lemma loadData_trace:
  assumes "truthy_str userId"
  shows "\<exists>t u. fst (snd (fetchTransaction userId e)) = [t]
      \<and> fst (snd (fetchSummary userId e)) = [u]
      \<and> loadData userId e
        = [SetIsLoading True,
           Fetch GET (API_URL @ ''/transactions/'' @ template userId),
           Fetch GET (API_URL @ ''/transactions/summary/'' @ template userId)]
          @ (case completes e of TransactionsFirst \<Rightarrow> [t, u] | SummaryFirst \<Rightarrow> [u, t])
          @ [SetIsLoading False]
      \<and> loadData_async userId e
        = (case completes e of TransactionsFirst \<Rightarrow> [t, u] | SummaryFirst \<Rightarrow> [u, t])
          @ [SetIsLoading False]
      \<and> ((\<exists>d. t = SetTransactions d) \<or> (\<exists>err. t = ConsoleError ''Error fetching transactions'' err))
      \<and> ((\<exists>d. u = SetSummary d) \<or> (\<exists>err. u = ConsoleError ''Error fetching transactions'' err))
      \<and> (\<forall>code d. net e GET (API_URL @ ''/transactions/'' @ template userId) = Response code (Some d)
            \<longrightarrow> t = SetTransactions d)
      \<and> (\<forall>code d. net e GET (API_URL @ ''/transactions/summary/'' @ template userId) = Response code (Some d)
            \<longrightarrow> u = SetSummary d)"
proof -
  from fetchTransaction_settled [of userId e] obtain t where
    t: "fst (snd (fetchTransaction userId e)) = [t]"
    and t_kind: "(\<exists>d. t = SetTransactions d) \<or> (\<exists>err. t = ConsoleError ''Error fetching transactions'' err)"
    and t_ok: "\<forall>code d. net e GET (API_URL @ ''/transactions/'' @ template userId) = Response code (Some d)
            \<longrightarrow> t = SetTransactions d"
    by blast
  from fetchSummary_settled [of userId e] obtain u where
    u: "fst (snd (fetchSummary userId e)) = [u]"
    and u_kind: "(\<exists>d. u = SetSummary d) \<or> (\<exists>err. u = ConsoleError ''Error fetching transactions'' err)"
    and u_ok: "\<forall>code d. net e GET (API_URL @ ''/transactions/summary/'' @ template userId) = Response code (Some d)
            \<longrightarrow> u = SetSummary d"
    by blast
  have async: "loadData_async userId e
        = (case completes e of TransactionsFirst \<Rightarrow> [t, u] | SummaryFirst \<Rightarrow> [u, t])
          @ [SetIsLoading False]"
    using assms by (cases "completes e") (simp_all add: loadData_async_truthy t u)
  have trace: "loadData userId e
        = [SetIsLoading True,
           Fetch GET (API_URL @ ''/transactions/'' @ template userId),
           Fetch GET (API_URL @ ''/transactions/summary/'' @ template userId)]
          @ (case completes e of TransactionsFirst \<Rightarrow> [t, u] | SummaryFirst \<Rightarrow> [u, t])
          @ [SetIsLoading False]"
    using assms by (simp add: loadData_def loadData_sync_truthy async)
  from t u trace async t_kind u_kind t_ok u_ok show ?thesis
    by (intro exI conjI)
qed

section \<open>Properties of \<open>parseInt\<close> and of the store\<close>

lemma decimal_not_ws: "is_decimal_digit c \<Longrightarrow> \<not> is_ws c"
  by (auto simp: is_decimal_digit_def is_ws_def)

lemma decimal_not_sign:
  "is_decimal_digit c \<Longrightarrow>
     c \<noteq> CHR ''+'' \<and> c \<noteq> CHR ''-'' \<and> c \<noteq> CHR ''x'' \<and> c \<noteq> CHR ''X''"
  by (auto simp: is_decimal_digit_def)

lemma decimal_is_radix_digit: "is_decimal_digit c \<Longrightarrow> is_radix_digit 10 c"
  by (auto simp: is_decimal_digit_def is_radix_digit_def digit_val_def Let_def)

lemma takeWhile_all: "list_all P xs \<Longrightarrow> takeWhile P xs = xs"
  by (induction xs) simp_all

text \<open>On a numeric id \<open>parseInt\<close> is never \<open>NaN\<close>: it reads the whole numeral.\<close>

lemma parseInt_numeric: "numeric_id i \<Longrightarrow> parseInt i = Some (digits_value 10 i)"
proof -
  assume n: "numeric_id i"
  then obtain c cs where i: "i = c # cs" and c: "is_decimal_digit c"
      and cs: "list_all is_decimal_digit cs"
    by (cases i) (auto simp: numeric_id_def)
  have trimmed: "trimStart i = i"
    using decimal_not_ws [OF c] by (simp add: trimStart_def i)
  have nohex: "take 2 i \<noteq> ''0x'' \<and> take 2 i \<noteq> ''0X''"
  proof (cases cs)
    case Nil
    then show ?thesis by (simp add: i)
  next
    case (Cons d ds)
    with cs have "is_decimal_digit d" by simp
    from decimal_not_sign [OF this] show ?thesis by (simp add: i Cons)
  qed
  have digits: "takeWhile (is_radix_digit 10) i = i"
    using n by (intro takeWhile_all) (auto simp: numeric_id_def list_all_iff decimal_is_radix_digit)
  have ne: "i \<noteq> []" by (simp add: i)
  have nosign: "hd i \<noteq> CHR ''+'' \<and> hd i \<noteq> CHR ''-''"
    using decimal_not_sign [OF c] by (simp add: i)
  show ?thesis
    using ne nosign nohex digits
    by (simp add: parseInt_def trimmed Let_def del: takeWhile_eq_all_conv)
qed

text \<open>
  What \<open>deleteItem\<close> does on the ids its checks reject, and on numeric ids with the
  store of the spec: 404 and an untouched store when no record has the id, otherwise 200
  with the record, which is the one removed.
\<close>

lemma deleteItem_rejected:
  "item_id = [] \<or> parseInt item_id = None \<Longrightarrow>
     status (fst (deleteItem db item_id s)) = 400 \<and> snd (deleteItem db item_id s) = s"
  by (auto simp: deleteItem_def isNaN_def respond_def)

lemma deleteItem_numeric:
  assumes "numeric_id i" and "online s"
  shows "deleteItem db_deleteById i s
     = (case find (\<lambda>t. tid t = nat (digits_value 10 i)) (rows s) of
          None \<Rightarrow> (respond 404 (Message ''Item not found''), s)
        | Some t \<Rightarrow>
            (respond 200 (Deleted ''Item deleted successfully'' t),
             s\<lparr>rows := filter (\<lambda>t. tid t \<noteq> nat (digits_value 10 i)) (rows s)\<rparr>))"
proof -
  from assms(1) have "i \<noteq> []" by (simp add: numeric_id_def)
  moreover have "\<not> isNaN (parseInt i)"
    by (simp add: isNaN_def parseInt_numeric [OF assms(1)])
  ultimately show ?thesis
    using assms by (simp add: deleteItem_def db_deleteById_def Let_def split: option.splits)
qed

text \<open>
  Ids stay unique under the store's operations, so a successful delete removes exactly
  one record, the one it returns.
\<close>

lemma ids_unique_empty: "ids_unique empty_store"
  by (simp add: ids_unique_def empty_store_def)

lemma ids_unique_create: "ids_unique s \<Longrightarrow> ids_unique (snd (db_create d s))"
  by (auto simp: ids_unique_def db_create_def Let_def list_all_iff)

lemma ids_unique_delete: "ids_unique s \<Longrightarrow> ids_unique (snd (db_deleteById i s))"
  by (auto simp: ids_unique_def db_deleteById_def Let_def list_all_iff distinct_map_filter
      split: option.splits)

lemma filter_other_ids:
  "distinct (map tid ts) \<Longrightarrow> t \<in> set ts \<Longrightarrow>
     mset (filter (\<lambda>x. tid x \<noteq> tid t) ts) = mset ts - {#t#}"
proof (induction ts)
  case Nil
  then show ?case by simp
next
  case (Cons x xs)
  show ?case
  proof (cases "x = t")
    case True
    with Cons.prems have "\<forall>y\<in>set xs. tid y \<noteq> tid t" by (auto simp: image_iff)
    then have "filter (\<lambda>y. tid y \<noteq> tid t) xs = xs" by (simp add: filter_id_conv)
    with True show ?thesis by simp
  next
    case False
    with Cons.prems have t: "t \<in> set xs" and d: "distinct (map tid xs)" by auto
    from Cons.prems t have "tid x \<noteq> tid t" by (auto simp: image_iff)
    with Cons.IH [OF d t] t show ?thesis by simp
  qed
qed

lemma find_tid: "find (\<lambda>t. tid t = n) ts = Some t \<Longrightarrow> t \<in> set ts \<and> tid t = n"
  by (induction ts) (auto split: if_splits)

lemma deleteItem_removes_one:
  assumes "numeric_id i" and "online s" and "ids_unique s"
    and "find (\<lambda>t. tid t = nat (digits_value 10 i)) (rows s) = Some t"
  shows "fst (deleteItem db_deleteById i s) = respond 200 (Deleted ''Item deleted successfully'' t)
     \<and> mset (rows (snd (deleteItem db_deleteById i s))) = mset (rows s) - {#t#}"
proof -
  from find_tid [OF assms(4)] have t: "t \<in> set (rows s)" and n: "tid t = nat (digits_value 10 i)"
    by simp_all
  from assms(3) have "distinct (map tid (rows s))" by (simp add: ids_unique_def)
  from filter_other_ids [OF this t] show ?thesis
    by (simp add: deleteItem_numeric [OF assms(1,2)] assms(4) n)
qed

lemma sum_where_filter: "sum_where P ts = sum_list (map amount (filter P ts))"
proof -
  have "foldl (\<lambda>acc t. if P t then acc + amount t else acc) a ts
      = a + sum_list (map amount (filter P ts))" for a
    by (induction ts arbitrary: a) simp_all
  from this [of 0] show ?thesis by (simp add: sum_where_def)
qed

lemma sum_by_sign:
  "sum_list (map amount (filter Q ts))
     = sum_list (map amount (filter (\<lambda>t. Q t \<and> 0 < amount t) ts))
       + sum_list (map amount (filter (\<lambda>t. Q t \<and> amount t < 0) ts))"
  by (induction ts) auto

lemma sum_negative_le: "sum_list (map amount (filter (\<lambda>t. Q t \<and> amount t < 0) ts)) \<le> 0"
  by (induction ts) (auto simp: add_nonpos_nonpos)

lemma sum_positive_ge: "0 \<le> sum_list (map amount (filter (\<lambda>t. Q t \<and> 0 < amount t) ts))"
  by (induction ts) auto

lemma scenario_store:
  "scenario = \<lparr>rows = [item_A, item_B, item_C], nextId = 4, now = 2, online = True\<rparr>"
  by (simp add: scenario_def createItem_def db_create_def item_body_def empty_store_def
      tick_def respond_def item_A_def item_B_def item_C_def Let_def)

section \<open>The rate limiter: claims\<close>

text \<open>
  C4. For every request the key the rate limiter derives, and asks the limiter about, is:
  when the forwarded-for header is present, the first comma-separated token of the
  header, trimmed (it holds no comma and neither starts nor ends with white space);
  otherwise the connection's peer address (\<open>req.ip\<close>, or the socket's
  \<open>remoteAddress\<close> when \<open>req.ip\<close> is not set).
\<close>

theorem rateLimiter_key:
  "client_key req = Inr (spec_client_key req)
   \<and> snd (snd (rateLimiter recording_limiter req seen)) = seen @ [spec_client_key req]
   \<and> (x_forwarded_for req = Some h \<longrightarrow>
        spec_client_key req = Some (trim (takeWhile (\<lambda>c. c \<noteq> CHR '','') h))
        \<and> CHR '','' \<notin> set (trim (first_token h))
        \<and> (trim (first_token h) \<noteq> [] \<longrightarrow>
             \<not> is_ws (hd (trim (first_token h))) \<and> \<not> is_ws (last (trim (first_token h)))))
   \<and> (x_forwarded_for req = None \<longrightarrow>
        spec_client_key req = (if truthy_str (ip req) then ip req else remoteAddress req))"
proof -
  have key: "client_key req = Inr (spec_client_key req)"
    by (rule client_key_eq)
  have asked: "snd (snd (rateLimiter recording_limiter req seen)) = seen @ [spec_client_key req]"
    by (simp add: rateLimiter_def key recording_limiter_def)
  have present: "x_forwarded_for req = Some h \<longrightarrow>
        spec_client_key req = Some (trim (takeWhile (\<lambda>c. c \<noteq> CHR '','') h))
        \<and> CHR '','' \<notin> set (trim (first_token h))
        \<and> (trim (first_token h) \<noteq> [] \<longrightarrow>
             \<not> is_ws (hd (trim (first_token h))) \<and> \<not> is_ws (last (trim (first_token h))))"
    using trim_first_token_no_comma [of h] trim_no_leading_ws [of "first_token h"]
      trim_no_trailing_ws [of "first_token h"]
    by (simp add: spec_client_key_def first_token_def)
  have absent: "x_forwarded_for req = None \<longrightarrow>
        spec_client_key req = (if truthy_str (ip req) then ip req else remoteAddress req)"
    by (simp add: spec_client_key_def js_or_def)
  from key asked present absent show ?thesis by blast
qed

theorem rateLimiter_key_witness:
  "client_key \<lparr>x_forwarded_for = Some '' 10.0.0.7 , 172.16.0.1'', ip = Some ''172.16.0.1'',
               remoteAddress = Some ''172.16.0.1''\<rparr> = Inr (Some ''10.0.0.7'')
   \<and> client_key \<lparr>x_forwarded_for = None, ip = Some ''192.168.1.20'',
               remoteAddress = Some ''192.168.1.20''\<rparr> = Inr (Some ''192.168.1.20'')
   \<and> client_key \<lparr>x_forwarded_for = None, ip = None,
               remoteAddress = Some ''192.168.1.20''\<rparr> = Inr (Some ''192.168.1.20'')"
  using rateLimiter_key [of "\<lparr>x_forwarded_for = Some '' 10.0.0.7 , 172.16.0.1'', ip = Some ''172.16.0.1'',
               remoteAddress = Some ''172.16.0.1''\<rparr>" "[]" "'' 10.0.0.7 , 172.16.0.1''"]
    rateLimiter_key [of "\<lparr>x_forwarded_for = None, ip = Some ''192.168.1.20'',
               remoteAddress = Some ''192.168.1.20''\<rparr>" "[]" "[]"]
    rateLimiter_key [of "\<lparr>x_forwarded_for = None, ip = None,
               remoteAddress = Some ''192.168.1.20''\<rparr>" "[]" "[]"]
  by (simp add: trim_def is_ws_def)

text \<open>
  C5. When the limiter returns \<open>success = false\<close> the middleware answers 429 with its
  fixed message and the downstream handler does not run; when it returns
  \<open>success = true\<close> the request goes to the next handler; when the call throws, the
  error goes to the error handler through \<open>next(error)\<close>.
\<close>

theorem rateLimiter_outcomes:
  "(limit (spec_client_key req) l = (Inr False, l') \<longrightarrow>
      rateLimiter limit req l = (Responded 429 ''Too many requests, please try again later.'', [], l')
      \<and> dispatch (fst (rateLimiter limit req l)) downstream on_error answer
          = answer 429 ''Too many requests, please try again later.'')
   \<and> (limit (spec_client_key req) l = (Inr True, l') \<longrightarrow>
      rateLimiter limit req l = (Next, [], l')
      \<and> dispatch (fst (rateLimiter limit req l)) downstream on_error answer = downstream)
   \<and> (limit (spec_client_key req) l = (Inl error, l') \<longrightarrow>
      rateLimiter limit req l = (NextError error, [''Rate limiter error:''], l')
      \<and> dispatch (fst (rateLimiter limit req l)) downstream on_error answer = on_error error)"
  by (simp add: rateLimiter_def client_key_eq dispatch_def)

theorem rateLimiter_outcomes_witness:
  "dispatch (fst (rateLimiter (\<lambda>key n. (Inr False, Suc n))
       \<lparr>x_forwarded_for = Some ''10.0.0.7'', ip = None, remoteAddress = None\<rparr> (0::nat)))
     ''downstream ran'' (\<lambda>e. ''error handler ran'') (\<lambda>st msg. msg)
     = ''Too many requests, please try again later.''
   \<and> dispatch (fst (rateLimiter (\<lambda>key n. (Inr True, Suc n))
       \<lparr>x_forwarded_for = Some ''10.0.0.7'', ip = None, remoteAddress = None\<rparr> (0::nat)))
     ''downstream ran'' (\<lambda>e. ''error handler ran'') (\<lambda>st msg. msg)
     = ''downstream ran''
   \<and> dispatch (fst (rateLimiter (\<lambda>key n. (Inl (Error ''fetch failed''), n))
       \<lparr>x_forwarded_for = Some ''10.0.0.7'', ip = None, remoteAddress = None\<rparr> (0::nat)))
     ''downstream ran'' (\<lambda>e. ''error handler ran'') (\<lambda>st msg. msg)
     = ''error handler ran''"
  using rateLimiter_outcomes [of "\<lambda>key n. (Inr False, Suc n)"
      "\<lparr>x_forwarded_for = Some ''10.0.0.7'', ip = None, remoteAddress = None\<rparr>" "0::nat" "Suc 0"
      "''downstream ran''" "\<lambda>e. ''error handler ran''" "\<lambda>st msg. msg" "Error ''fetch failed''"]
    rateLimiter_outcomes [of "\<lambda>key n. (Inr True, Suc n)"
      "\<lparr>x_forwarded_for = Some ''10.0.0.7'', ip = None, remoteAddress = None\<rparr>" "0::nat" "Suc 0"
      "''downstream ran''" "\<lambda>e. ''error handler ran''" "\<lambda>st msg. msg" "Error ''fetch failed''"]
    rateLimiter_outcomes [of "\<lambda>key n. (Inl (Error ''fetch failed''), n)"
      "\<lparr>x_forwarded_for = Some ''10.0.0.7'', ip = None, remoteAddress = None\<rparr>" "0::nat" "0"
      "''downstream ran''" "\<lambda>e. ''error handler ran''" "\<lambda>st msg. msg" "Error ''fetch failed''"]
  by (simp add: dispatch_def)

section \<open>The transactions service: claims\<close>

text \<open>
  C1. When the store answers, \<open>Summary(userId)\<close> returns 200 with a triple whose
  balance is the sum of the amounts of the user's transactions, whose income is the sum
  of the positive ones and whose expense is the sum of the negative ones (a number at
  most zero), so that balance = income + expense; for a user with no transactions the
  triple is (0, 0, 0). The store is not changed.
\<close>

theorem Summary_totals:
  "online s \<longrightarrow>
     Summary u s
       = (respond 200 (SummaryOf
            (sum_list (map amount (filter (\<lambda>t. user_id t = u) (rows s))))
            (sum_list (map amount (filter (\<lambda>t. user_id t = u \<and> 0 < amount t) (rows s))))
            (sum_list (map amount (filter (\<lambda>t. user_id t = u \<and> amount t < 0) (rows s))))), s)
     \<and> sum_list (map amount (filter (\<lambda>t. user_id t = u) (rows s)))
         = sum_list (map amount (filter (\<lambda>t. user_id t = u \<and> 0 < amount t) (rows s)))
           + sum_list (map amount (filter (\<lambda>t. user_id t = u \<and> amount t < 0) (rows s)))
     \<and> sum_list (map amount (filter (\<lambda>t. user_id t = u \<and> amount t < 0) (rows s))) \<le> 0
     \<and> 0 \<le> sum_list (map amount (filter (\<lambda>t. user_id t = u \<and> 0 < amount t) (rows s)))
     \<and> (filter (\<lambda>t. user_id t = u) (rows s) = [] \<longrightarrow>
          Summary u s = (respond 200 (SummaryOf 0 0 0), s))"
proof
  assume up: "online s"
  have triple: "Summary u s
       = (respond 200 (SummaryOf
            (sum_list (map amount (filter (\<lambda>t. user_id t = u) (rows s))))
            (sum_list (map amount (filter (\<lambda>t. user_id t = u \<and> 0 < amount t) (rows s))))
            (sum_list (map amount (filter (\<lambda>t. user_id t = u \<and> amount t < 0) (rows s))))), s)"
    using up by (simp add: Summary_def sum_where_filter Let_def)
  have none: "filter (\<lambda>t. user_id t = u \<and> R t) (rows s) = []"
    if "filter (\<lambda>t. user_id t = u) (rows s) = []" for R
    using that by (auto simp: filter_empty_conv)
  have zeros: "Summary u s = (respond 200 (SummaryOf 0 0 0), s)"
    if "filter (\<lambda>t. user_id t = u) (rows s) = []"
    using that none [OF that] by (simp add: triple)
  from triple zeros
    sum_by_sign [of "\<lambda>t. user_id t = u" "rows s"]
    sum_negative_le [of "\<lambda>t. user_id t = u" "rows s"]
    sum_positive_ge [of "\<lambda>t. user_id t = u" "rows s"]
  show "Summary u s
       = (respond 200 (SummaryOf
            (sum_list (map amount (filter (\<lambda>t. user_id t = u) (rows s))))
            (sum_list (map amount (filter (\<lambda>t. user_id t = u \<and> 0 < amount t) (rows s))))
            (sum_list (map amount (filter (\<lambda>t. user_id t = u \<and> amount t < 0) (rows s))))), s)
     \<and> sum_list (map amount (filter (\<lambda>t. user_id t = u) (rows s)))
         = sum_list (map amount (filter (\<lambda>t. user_id t = u \<and> 0 < amount t) (rows s)))
           + sum_list (map amount (filter (\<lambda>t. user_id t = u \<and> amount t < 0) (rows s)))
     \<and> sum_list (map amount (filter (\<lambda>t. user_id t = u \<and> amount t < 0) (rows s))) \<le> 0
     \<and> 0 \<le> sum_list (map amount (filter (\<lambda>t. user_id t = u \<and> 0 < amount t) (rows s)))
     \<and> (filter (\<lambda>t. user_id t = u) (rows s) = [] \<longrightarrow>
          Summary u s = (respond 200 (SummaryOf 0 0 0), s))"
    by blast
qed

theorem Summary_totals_witness:
  "Summary (JNum 1) scenario = (respond 200 (SummaryOf 70 100 (- 30)), scenario)
   \<and> Summary (JNum 2) scenario = (respond 200 (SummaryOf 50 50 0), scenario)
   \<and> Summary (JNum 3) scenario = (respond 200 (SummaryOf 0 0 0), scenario)"
proof -
  have up: "online scenario"
    by code_simp
  have none: "filter (\<lambda>t. user_id t = JNum 3) (rows scenario) = []"
    by code_simp
  have one: "sum_list (map amount (filter (\<lambda>t. user_id t = JNum 1) (rows scenario))) = 70"
    "sum_list (map amount (filter (\<lambda>t. user_id t = JNum 1 \<and> 0 < amount t) (rows scenario))) = 100"
    "sum_list (map amount (filter (\<lambda>t. user_id t = JNum 1 \<and> amount t < 0) (rows scenario))) = - 30"
    by code_simp+
  have two: "sum_list (map amount (filter (\<lambda>t. user_id t = JNum 2) (rows scenario))) = 50"
    "sum_list (map amount (filter (\<lambda>t. user_id t = JNum 2 \<and> 0 < amount t) (rows scenario))) = 50"
    "sum_list (map amount (filter (\<lambda>t. user_id t = JNum 2 \<and> amount t < 0) (rows scenario))) = 0"
    by code_simp+
  from Summary_totals [of scenario "JNum 1"] up
  have "Summary (JNum 1) scenario = (respond 200 (SummaryOf 70 100 (- 30)), scenario)"
    by (simp only: one)
  moreover from Summary_totals [of scenario "JNum 2"] up
  have "Summary (JNum 2) scenario = (respond 200 (SummaryOf 50 50 0), scenario)"
    by (simp only: two)
  moreover from Summary_totals [of scenario "JNum 3"] up none
  have "Summary (JNum 3) scenario = (respond 200 (SummaryOf 0 0 0), scenario)"
    by blast
  ultimately show ?thesis
    by (intro conjI)
qed

text \<open>
  C2, as amended. \<open>createItem\<close> answers 400 and leaves the store untouched whenever
  \<open>userId\<close>, \<open>title\<close> or \<open>category\<close> is missing or falsy (\<open>null\<close>,
  \<open>false\<close>, \<open>0\<close>, the empty string), or \<open>amount\<close> is missing or is not a
  number. Otherwise it calls \<open>db.create\<close> once with the four values: when the call
  returns, the answer is 201 with the record it returned; when it throws, the answer is
  500. With the store of the spec, when it can be reached, the answer is 201 and the
  record is the one new row of the table: it carries the four values, and its \<open>id\<close>
  and \<open>createdAt\<close> are the store's next id and time.
\<close>

theorem createItem_amended:
  "(\<not> truthy (reqBody ''userId'') \<or> \<not> truthy (reqBody ''title'')
      \<or> \<not> truthy (reqBody ''category'') \<or> (\<forall>a. reqBody ''amount'' \<noteq> Some (JNum a)) \<longrightarrow>
        status (fst (createItem db reqBody s)) = 400 \<and> snd (createItem db reqBody s) = s)
   \<and> (reqBody ''userId'' = Some u \<and> truthy (Some u) \<and> reqBody ''title'' = Some t \<and> truthy (Some t)
      \<and> reqBody ''category'' = Some c \<and> truthy (Some c) \<and> reqBody ''amount'' = Some (JNum a) \<longrightarrow>
        createItem db reqBody s
          = (case db \<lparr>new_userId = u, new_title = t, new_amount = a, new_category = c\<rparr> s of
               (Inl error, s') \<Rightarrow> (server_error ''Error creating item:'', s')
             | (Inr newItem, s') \<Rightarrow> (respond 201 (Item newItem), s'))
        \<and> (online st \<longrightarrow>
             createItem db_create reqBody st
               = (respond 201 (Item \<lparr>tid = nextId st, user_id = u, title = t, amount = a,
                                      category = c, created_at = now st\<rparr>),
                  st\<lparr>rows := rows st @ [\<lparr>tid = nextId st, user_id = u, title = t, amount = a,
                                            category = c, created_at = now st\<rparr>],
                     nextId := Suc (nextId st)\<rparr>))
        \<and> (\<not> online st \<longrightarrow>
             createItem db_create reqBody st = (server_error ''Error creating item:'', st)))"
proof (intro conjI impI)
  assume bad: "\<not> truthy (reqBody ''userId'') \<or> \<not> truthy (reqBody ''title'')
      \<or> \<not> truthy (reqBody ''category'') \<or> (\<forall>a. reqBody ''amount'' \<noteq> Some (JNum a))"
  show "status (fst (createItem db reqBody s)) = 400"
    using bad
    by (auto simp: createItem_def Let_def respond_def split: option.splits json.splits)
  show "snd (createItem db reqBody s) = s"
    using bad
    by (auto simp: createItem_def Let_def respond_def split: option.splits json.splits)
next
  assume good: "reqBody ''userId'' = Some u \<and> truthy (Some u) \<and> reqBody ''title'' = Some t
      \<and> truthy (Some t) \<and> reqBody ''category'' = Some c \<and> truthy (Some c)
      \<and> reqBody ''amount'' = Some (JNum a)"
  then show "createItem db reqBody s
          = (case db \<lparr>new_userId = u, new_title = t, new_amount = a, new_category = c\<rparr> s of
               (Inl error, s') \<Rightarrow> (server_error ''Error creating item:'', s')
             | (Inr newItem, s') \<Rightarrow> (respond 201 (Item newItem), s'))"
    by (simp add: createItem_def Let_def)
next
  assume good: "reqBody ''userId'' = Some u \<and> truthy (Some u) \<and> reqBody ''title'' = Some t
      \<and> truthy (Some t) \<and> reqBody ''category'' = Some c \<and> truthy (Some c)
      \<and> reqBody ''amount'' = Some (JNum a)"
    and up: "online st"
  then show "createItem db_create reqBody st
               = (respond 201 (Item \<lparr>tid = nextId st, user_id = u, title = t, amount = a,
                                      category = c, created_at = now st\<rparr>),
                  st\<lparr>rows := rows st @ [\<lparr>tid = nextId st, user_id = u, title = t, amount = a,
                                            category = c, created_at = now st\<rparr>],
                     nextId := Suc (nextId st)\<rparr>)"
    by (simp add: createItem_def db_create_def Let_def)
next
  assume good: "reqBody ''userId'' = Some u \<and> truthy (Some u) \<and> reqBody ''title'' = Some t
      \<and> truthy (Some t) \<and> reqBody ''category'' = Some c \<and> truthy (Some c)
      \<and> reqBody ''amount'' = Some (JNum a)"
    and down: "\<not> online st"
  then show "createItem db_create reqBody st = (server_error ''Error creating item:'', st)"
    by (simp add: createItem_def db_create_def Let_def)
qed

theorem createItem_amended_witness:
  "status (fst (createItem db_create
       [''userId'' \<mapsto> JStr ''user_1'', ''title'' \<mapsto> JStr ''Lunch'', ''amount'' \<mapsto> JNum (- 12)]
       empty_store)) = 400
   \<and> createItem db_create (item_body (JStr ''user_1'') ''Lunch'' (- 12) ''food'') empty_store
     = (respond 201 (Item \<lparr>tid = 1, user_id = JStr ''user_1'', title = JStr ''Lunch'',
                            amount = - 12, category = JStr ''food'', created_at = 0\<rparr>),
        \<lparr>rows = [\<lparr>tid = 1, user_id = JStr ''user_1'', title = JStr ''Lunch'',
                   amount = - 12, category = JStr ''food'', created_at = 0\<rparr>],
         nextId = 2, now = 0, online = True\<rparr>)"
proof -
  let ?missing = "[''userId'' \<mapsto> JStr ''user_1'', ''title'' \<mapsto> JStr ''Lunch'',
      ''amount'' \<mapsto> JNum (- 12)]"
  have "\<not> truthy (?missing ''category'')"
    by simp
  with createItem_amended [where reqBody = ?missing and db = db_create and s = empty_store]
  have rejected: "status (fst (createItem db_create ?missing empty_store)) = 400"
    by blast
  let ?body = "item_body (JStr ''user_1'') ''Lunch'' (- 12) ''food''"
  have fields: "?body ''userId'' = Some (JStr ''user_1'') \<and> truthy (Some (JStr ''user_1''))
      \<and> ?body ''title'' = Some (JStr ''Lunch'') \<and> truthy (Some (JStr ''Lunch''))
      \<and> ?body ''category'' = Some (JStr ''food'') \<and> truthy (Some (JStr ''food''))
      \<and> ?body ''amount'' = Some (JNum (- 12))"
    by (simp add: item_body_def)
  have up: "online empty_store"
    by (simp add: empty_store_def)
  from createItem_amended [where reqBody = ?body and u = "JStr ''user_1''"
      and t = "JStr ''Lunch''" and c = "JStr ''food''" and a = "- 12"
      and db = db_create and s = empty_store and st = empty_store] fields up
  have "createItem db_create ?body empty_store
      = (respond 201 (Item \<lparr>tid = nextId empty_store, user_id = JStr ''user_1'',
                             title = JStr ''Lunch'', amount = - 12, category = JStr ''food'',
                             created_at = now empty_store\<rparr>),
         empty_store\<lparr>rows := rows empty_store
              @ [\<lparr>tid = nextId empty_store, user_id = JStr ''user_1'', title = JStr ''Lunch'',
                   amount = - 12, category = JStr ''food'', created_at = now empty_store\<rparr>],
            nextId := Suc (nextId empty_store)\<rparr>)"
    by blast
  then have created: "createItem db_create ?body empty_store
     = (respond 201 (Item \<lparr>tid = 1, user_id = JStr ''user_1'', title = JStr ''Lunch'',
                            amount = - 12, category = JStr ''food'', created_at = 0\<rparr>),
        \<lparr>rows = [\<lparr>tid = 1, user_id = JStr ''user_1'', title = JStr ''Lunch'',
                   amount = - 12, category = JStr ''food'', created_at = 0\<rparr>],
         nextId = 2, now = 0, online = True\<rparr>)"
    by (simp add: empty_store_def)
  from rejected created show ?thesis
    by (intro conjI)
qed

text \<open>
  C2 as stated fails: in the body below all four fields are present and \<open>amount\<close> is
  a number, yet the answer is 400 and nothing is stored, because \<open>title\<close> is the empty
  string.
\<close>

theorem createItem_counterexample:
  "item_body (JStr ''user_1'') [] 5 ''food'' ''userId'' \<noteq> None
   \<and> item_body (JStr ''user_1'') [] 5 ''food'' ''title'' \<noteq> None
   \<and> item_body (JStr ''user_1'') [] 5 ''food'' ''amount'' = Some (JNum 5)
   \<and> item_body (JStr ''user_1'') [] 5 ''food'' ''category'' \<noteq> None
   \<and> createItem db_create (item_body (JStr ''user_1'') [] 5 ''food'') empty_store
     = (respond 400 (Message ''All fields are required: userId, title, amount, category''),
        empty_store)"
  by (simp add: item_body_def createItem_def)

text \<open>
  C3, the failing input. The id \<open>12abc\<close> is not numeric, and \<open>parseInt\<close> reads its
  prefix \<open>12\<close>, so the format check lets it through: whatever the store, the handler
  calls \<open>db.deleteById\<close> with it and answers 500, 404 or 200, never 400. With the store
  of the spec the answer is 500.
\<close>

theorem deleteItem_malformed_id:
  "\<not> numeric_id ''12abc''
   \<and> parseInt ''12abc'' = Some 12
   \<and> deleteItem db ''12abc'' s
     = (case db ''12abc'' s of
          (Inl error, s') \<Rightarrow> (server_error ''Error deleting item:'', s')
        | (Inr None, s') \<Rightarrow> (respond 404 (Message ''Item not found''), s')
        | (Inr (Some deletedItem), s') \<Rightarrow>
            (respond 200 (Deleted ''Item deleted successfully'' deletedItem), s'))
   \<and> status (fst (deleteItem db ''12abc'' s)) \<noteq> 400
   \<and> deleteItem db_deleteById ''12abc'' empty_store
     = (server_error ''Error deleting item:'', empty_store)"
proof -
  have malformed: "\<not> numeric_id ''12abc''"
    by code_simp
  have parsed: "parseInt ''12abc'' = Some 12"
    by code_simp
  have handled: "deleteItem db ''12abc'' s
     = (case db ''12abc'' s of
          (Inl error, s') \<Rightarrow> (server_error ''Error deleting item:'', s')
        | (Inr None, s') \<Rightarrow> (respond 404 (Message ''Item not found''), s')
        | (Inr (Some deletedItem), s') \<Rightarrow>
            (respond 200 (Deleted ''Item deleted successfully'' deletedItem), s'))"
    by (simp add: deleteItem_def isNaN_def parsed)
  have not400: "status (fst (deleteItem db ''12abc'' s)) \<noteq> 400"
    unfolding handled
    by (cases "db ''12abc'' s")
       (auto simp: server_error_def respond_def split: sum.splits option.splits)
  have here: "deleteItem db_deleteById ''12abc'' empty_store
     = (server_error ''Error deleting item:'', empty_store)"
    by (simp add: deleteItem_def isNaN_def parsed db_deleteById_def malformed empty_store_def)
  from malformed parsed handled not400 here show ?thesis
    by (intro conjI)
qed

text \<open>
  C6, as amended. \<open>getItemsByUserId\<close>, for a \<open>userId\<close> that is not empty, calls
  \<open>db.findByUserId\<close> once and answers 200 with the items it returned, in the order it
  returned them (500 when it throws); an empty \<open>userId\<close> is answered 400. With the
  guide's SQL query on a store that answers, the items are all the transactions of the
  user, as the table holds them; no ordering by creation time is applied. For a user with
  no transactions the answer is 200 with the empty sequence. The store is not changed.
\<close>

theorem getItemsByUserId_amended:
  "(userId = [] \<longrightarrow>
      getItemsByUserId db userId limit offset s
        = (respond 400 (Message ''User ID is required''), s))
   \<and> (userId \<noteq> [] \<longrightarrow>
      getItemsByUserId db userId limit offset s
        = (case db userId (limit, offset) s of
             (Inl error, s') \<Rightarrow> (server_error ''Error fetching items:'', s')
           | (Inr items, s') \<Rightarrow> (respond 200 (Items items), s'))
      \<and> (online st \<longrightarrow>
           getItemsByUserId db_findByUserId userId limit offset st
             = (respond 200 (Items (filter (\<lambda>t. user_id t = JStr userId) (rows st))), st))
      \<and> (online st \<and> filter (\<lambda>t. user_id t = JStr userId) (rows st) = [] \<longrightarrow>
           getItemsByUserId db_findByUserId userId limit offset st = (respond 200 (Items []), st)))"
  by (simp add: getItemsByUserId_def db_findByUserId_def)

theorem getItemsByUserId_amended_witness:
  "getItemsByUserId db_findByUserId ''user_1'' None None wallet
     = (respond 200 (Items [wallet_A, wallet_B]), wallet)
   \<and> getItemsByUserId db_findByUserId ''user_3'' None None wallet
     = (respond 200 (Items []), wallet)
   \<and> getItemsByUserId db_findByUserId [] None None wallet
     = (respond 400 (Message ''User ID is required''), wallet)"
proof -
  have up: "online wallet"
    by code_simp
  have mine: "filter (\<lambda>t. user_id t = JStr ''user_1'') (rows wallet) = [wallet_A, wallet_B]"
    by code_simp
  have none: "filter (\<lambda>t. user_id t = JStr ''user_3'') (rows wallet) = []"
    by code_simp
  have named: "''user_1'' \<noteq> []" "''user_3'' \<noteq> []"
    by simp_all
  from getItemsByUserId_amended [where userId = "''user_1''" and st = wallet
      and db = db_findByUserId and s = wallet and limit = None and offset = None] named(1) up
  have "getItemsByUserId db_findByUserId ''user_1'' None None wallet
      = (respond 200 (Items (filter (\<lambda>t. user_id t = JStr ''user_1'') (rows wallet))), wallet)"
    by blast
  then have listed: "getItemsByUserId db_findByUserId ''user_1'' None None wallet
     = (respond 200 (Items [wallet_A, wallet_B]), wallet)"
    by (simp only: mine)
  from getItemsByUserId_amended [where userId = "''user_3''" and st = wallet
      and db = db_findByUserId and s = wallet and limit = None and offset = None] named(2) up none
  have empty: "getItemsByUserId db_findByUserId ''user_3'' None None wallet
     = (respond 200 (Items []), wallet)"
    by blast
  from getItemsByUserId_amended [where userId = "[]" and db = db_findByUserId and s = wallet
      and st = wallet and limit = None and offset = None]
  have refused: "getItemsByUserId db_findByUserId [] None None wallet
     = (respond 400 (Message ''User ID is required''), wallet)"
    by blast
  from listed empty refused show ?thesis
    by (intro conjI)
qed

text \<open>
  C6 as stated fails: the list of \<open>user_1\<close> comes back as the table holds it, A
  before B, although B was created after A. The order is not by creation time descending.
\<close>

theorem getItemsByUserId_counterexample:
  "getItemsByUserId db_findByUserId ''user_1'' None None wallet
     = (respond 200 (Items [wallet_A, wallet_B]), wallet)
   \<and> created_at wallet_A < created_at wallet_B
   \<and> \<not> newest_first [wallet_A, wallet_B]"
proof -
  have "getItemsByUserId db_findByUserId ''user_1'' None None wallet
     = (respond 200 (Items [wallet_A, wallet_B]), wallet)"
    by code_simp
  moreover have "created_at wallet_A < created_at wallet_B"
    by (simp add: wallet_A_def wallet_B_def)
  moreover have "\<not> newest_first [wallet_A, wallet_B]"
    by (simp add: newest_first_def wallet_A_def wallet_B_def)
  ultimately show ?thesis
    by (intro conjI)
qed

section \<open>The mobile hook: claims\<close>

text \<open>
  C7, as amended. \<open>loadData\<close> is a no-op (no event, no state change) when \<open>userId\<close> is
  absent or the empty string. Otherwise it sets the loading flag, issues the list request
  and the summary request before either settles, and when both have settled it clears
  the loading flag, whatever the two requests came to.
\<close>

theorem loadData_amended:
  "(userId = None \<or> userId = Some [] \<longrightarrow>
      loadData userId e = [] \<and> run st (loadData userId e) = st)
   \<and> (userId \<noteq> None \<and> userId \<noteq> Some [] \<longrightarrow>
      loadData userId e
        = [SetIsLoading True,
           Fetch GET (API_URL @ ''/transactions/'' @ template userId),
           Fetch GET (API_URL @ ''/transactions/summary/'' @ template userId)]
          @ (case completes e of
               TransactionsFirst \<Rightarrow>
                 fst (snd (fetchTransaction userId e)) @ fst (snd (fetchSummary userId e))
             | SummaryFirst \<Rightarrow>
                 fst (snd (fetchSummary userId e)) @ fst (snd (fetchTransaction userId e)))
          @ [SetIsLoading False]
      \<and> isLoading (run st (loadData userId e)) = False)"
proof (cases "truthy_str userId")
  case False
  then have "userId = None \<or> userId = Some []"
    by (cases userId) simp_all
  moreover from False have "loadData userId e = []"
    by (rule loadData_falsy)
  ultimately show ?thesis
    by (auto simp: run_Nil)
next
  case True
  then have present: "userId \<noteq> None \<and> userId \<noteq> Some []"
    by (cases userId) simp_all
  let ?settled = "case completes e of
      TransactionsFirst \<Rightarrow>
        fst (snd (fetchTransaction userId e)) @ fst (snd (fetchSummary userId e))
    | SummaryFirst \<Rightarrow>
        fst (snd (fetchSummary userId e)) @ fst (snd (fetchTransaction userId e))"
  have trace: "loadData userId e
        = [SetIsLoading True,
           Fetch GET (API_URL @ ''/transactions/'' @ template userId),
           Fetch GET (API_URL @ ''/transactions/summary/'' @ template userId)]
          @ ?settled @ [SetIsLoading False]"
    using True by (simp add: loadData_def loadData_sync_truthy loadData_async_truthy)
  have cleared: "isLoading (run st (loadData userId e)) = False"
    unfolding trace append_assoc [symmetric] by (rule isLoading_after_clear)
  from trace present cleared show ?thesis by blast
qed

theorem loadData_amended_witness:
  "loadData None (constant_net (NetworkError ''Network request failed'') SummaryFirst) = []
   \<and> isLoading (run initial_state
        (loadData (Some ''user_1'')
           (constant_net (NetworkError ''Network request failed'') SummaryFirst))) = False"
  using loadData_amended [of None
      "constant_net (NetworkError ''Network request failed'') SummaryFirst"
      initial_state]
    loadData_amended [of "Some ''user_1''"
      "constant_net (NetworkError ''Network request failed'') SummaryFirst"
      initial_state]
  by auto

text \<open>
  C7 as stated fails: the empty string is a \<open>userId\<close> that is not absent, and
  \<open>loadData\<close> with it does nothing: the loading flag is not set and no request is
  issued.
\<close>

theorem loadData_counterexample:
  "(Some [] :: string option) \<noteq> None
   \<and> loadData (Some []) (constant_net (Response 200 (Some (JArr []))) TransactionsFirst) = []
   \<and> SetIsLoading True \<notin> set (loadData (Some [])
         (constant_net (Response 200 (Some (JArr []))) TransactionsFirst))"
  by (simp add: loadData_def loadData_sync_def loadData_async_def)

text \<open>
  C8, as amended. \<open>deleteTransactions\<close>: on a response whose status is not a
  success, the hook logs, shows the alert "Error" with the reason "Failed to delete
  transaction", and does not refresh (no further request, no state change). On a success
  status it calls \<open>loadData()\<close> and then shows the alert "Success". When \<open>userId\<close>
  is present and not empty, that call sets the loading flag and issues the list request
  and the summary request before the alert; after the alert each request ends in its
  setter (always, when its body parses as JSON) or in a logged error, and the loading flag
  is cleared last. When \<open>userId\<close> is absent or empty, \<open>loadData()\<close> does nothing:
  only the alert "Success" is shown and nothing is refreshed.
\<close>

theorem deleteTransactions_amended:
  "(net e DELETE (API_URL @ ''/transactions/'' @ item_id) = Response code parsed \<and> \<not> ok code \<longrightarrow>
      deleteTransactions item_id userId e
        = [Fetch DELETE (API_URL @ ''/transactions/'' @ item_id),
           ConsoleError ''Error deleting transaction'' (Error ''Failed to delete transaction''),
           Alert ''Error'' ''Failed to delete transaction'']
      \<and> run st (deleteTransactions item_id userId e) = st)
   \<and> (net e DELETE (API_URL @ ''/transactions/'' @ item_id) = Response code parsed \<and> ok code
        \<and> (userId = None \<or> userId = Some []) \<longrightarrow>
      deleteTransactions item_id userId e
        = [Fetch DELETE (API_URL @ ''/transactions/'' @ item_id),
           Alert ''Success'' ''Transaction deleted successfully'']
      \<and> run st (deleteTransactions item_id userId e) = st)
   \<and> (net e DELETE (API_URL @ ''/transactions/'' @ item_id) = Response code parsed \<and> ok code
        \<and> userId \<noteq> None \<and> userId \<noteq> Some [] \<longrightarrow>
      (\<exists>t u. deleteTransactions item_id userId e
          = [Fetch DELETE (API_URL @ ''/transactions/'' @ item_id),
             SetIsLoading True,
             Fetch GET (API_URL @ ''/transactions/'' @ template userId),
             Fetch GET (API_URL @ ''/transactions/summary/'' @ template userId),
             Alert ''Success'' ''Transaction deleted successfully'']
            @ (case completes e of TransactionsFirst \<Rightarrow> [t, u] | SummaryFirst \<Rightarrow> [u, t])
            @ [SetIsLoading False]
         \<and> ((\<exists>d. t = SetTransactions d)
              \<or> (\<exists>err. t = ConsoleError ''Error fetching transactions'' err))
         \<and> ((\<exists>d. u = SetSummary d)
              \<or> (\<exists>err. u = ConsoleError ''Error fetching transactions'' err))
         \<and> (\<forall>c d. net e GET (API_URL @ ''/transactions/'' @ template userId)
                    = Response c (Some d) \<longrightarrow> t = SetTransactions d)
         \<and> (\<forall>c d. net e GET (API_URL @ ''/transactions/summary/'' @ template userId)
                    = Response c (Some d) \<longrightarrow> u = SetSummary d))
      \<and> isLoading (run st (deleteTransactions item_id userId e)) = False)"
proof (intro conjI impI)
  assume "net e DELETE (API_URL @ ''/transactions/'' @ item_id) = Response code parsed \<and> \<not> ok code"
  then show "deleteTransactions item_id userId e
        = [Fetch DELETE (API_URL @ ''/transactions/'' @ item_id),
           ConsoleError ''Error deleting transaction'' (Error ''Failed to delete transaction''),
           Alert ''Error'' ''Failed to delete transaction'']"
    and "run st (deleteTransactions item_id userId e) = st"
    by (simp_all add: deleteTransactions_def Let_def run_Cons run_Nil)
next
  assume a: "net e DELETE (API_URL @ ''/transactions/'' @ item_id) = Response code parsed \<and> ok code
        \<and> (userId = None \<or> userId = Some [])"
  then have "\<not> truthy_str userId"
    by auto
  then have "loadData_sync userId e = []" "loadData_async userId e = []"
    by (simp_all add: loadData_sync_def loadData_async_def)
  with a show "deleteTransactions item_id userId e
        = [Fetch DELETE (API_URL @ ''/transactions/'' @ item_id),
           Alert ''Success'' ''Transaction deleted successfully'']"
    and "run st (deleteTransactions item_id userId e) = st"
    by (simp_all add: deleteTransactions_def Let_def run_Cons run_Nil)
next
  assume a: "net e DELETE (API_URL @ ''/transactions/'' @ item_id) = Response code parsed \<and> ok code
        \<and> userId \<noteq> None \<and> userId \<noteq> Some []"
  then have present: "truthy_str userId"
    by (cases userId) simp_all
  from loadData_trace [OF present, of e] obtain t u where
    async: "loadData_async userId e
        = (case completes e of TransactionsFirst \<Rightarrow> [t, u] | SummaryFirst \<Rightarrow> [u, t])
          @ [SetIsLoading False]"
    and kinds: "(\<exists>d. t = SetTransactions d)
              \<or> (\<exists>err. t = ConsoleError ''Error fetching transactions'' err)"
      "(\<exists>d. u = SetSummary d)
              \<or> (\<exists>err. u = ConsoleError ''Error fetching transactions'' err)"
    and parsed: "\<forall>c d. net e GET (API_URL @ ''/transactions/'' @ template userId)
                    = Response c (Some d) \<longrightarrow> t = SetTransactions d"
      "\<forall>c d. net e GET (API_URL @ ''/transactions/summary/'' @ template userId)
                    = Response c (Some d) \<longrightarrow> u = SetSummary d"
    by blast
  have trace: "deleteTransactions item_id userId e
          = [Fetch DELETE (API_URL @ ''/transactions/'' @ item_id),
             SetIsLoading True,
             Fetch GET (API_URL @ ''/transactions/'' @ template userId),
             Fetch GET (API_URL @ ''/transactions/summary/'' @ template userId),
             Alert ''Success'' ''Transaction deleted successfully'']
            @ (case completes e of TransactionsFirst \<Rightarrow> [t, u] | SummaryFirst \<Rightarrow> [u, t])
            @ [SetIsLoading False]"
    using a by (simp add: deleteTransactions_def Let_def loadData_sync_truthy [OF present] async)
  from trace kinds parsed
  show "\<exists>t u. deleteTransactions item_id userId e
          = [Fetch DELETE (API_URL @ ''/transactions/'' @ item_id),
             SetIsLoading True,
             Fetch GET (API_URL @ ''/transactions/'' @ template userId),
             Fetch GET (API_URL @ ''/transactions/summary/'' @ template userId),
             Alert ''Success'' ''Transaction deleted successfully'']
            @ (case completes e of TransactionsFirst \<Rightarrow> [t, u] | SummaryFirst \<Rightarrow> [u, t])
            @ [SetIsLoading False]
         \<and> ((\<exists>d. t = SetTransactions d)
              \<or> (\<exists>err. t = ConsoleError ''Error fetching transactions'' err))
         \<and> ((\<exists>d. u = SetSummary d)
              \<or> (\<exists>err. u = ConsoleError ''Error fetching transactions'' err))
         \<and> (\<forall>c d. net e GET (API_URL @ ''/transactions/'' @ template userId)
                    = Response c (Some d) \<longrightarrow> t = SetTransactions d)
         \<and> (\<forall>c d. net e GET (API_URL @ ''/transactions/summary/'' @ template userId)
                    = Response c (Some d) \<longrightarrow> u = SetSummary d)"
    by (intro exI conjI)
  show "isLoading (run st (deleteTransactions item_id userId e)) = False"
    unfolding trace append_assoc [symmetric] by (rule isLoading_after_clear)
qed

theorem deleteTransactions_amended_witness:
  "deleteTransactions ''7'' (Some ''user_1'')
       (constant_net (Response 404 (Some (JObj [(''message'', JStr ''Item not found'')])))
          TransactionsFirst)
     = [Fetch DELETE ''https://rn-wallet-szfl.onrender.com/api/transactions/7'',
        ConsoleError ''Error deleting transaction'' (Error ''Failed to delete transaction''),
        Alert ''Error'' ''Failed to delete transaction'']
   \<and> deleteTransactions ''7'' (Some ''user_1'')
       (constant_net (Response 200 (Some (JArr []))) TransactionsFirst)
     = [Fetch DELETE ''https://rn-wallet-szfl.onrender.com/api/transactions/7'',
        SetIsLoading True,
        Fetch GET ''https://rn-wallet-szfl.onrender.com/api/transactions/user_1'',
        Fetch GET ''https://rn-wallet-szfl.onrender.com/api/transactions/summary/user_1'',
        Alert ''Success'' ''Transaction deleted successfully'',
        SetTransactions (JArr []),
        SetSummary (JArr []),
        SetIsLoading False]
   \<and> deleteTransactions ''7'' (Some [])
       (constant_net (Response 200 (Some (JArr []))) TransactionsFirst)
     = [Fetch DELETE ''https://rn-wallet-szfl.onrender.com/api/transactions/7'',
        Alert ''Success'' ''Transaction deleted successfully'']"
proof -
  let ?missing = "constant_net (Response 404 (Some (JObj [(''message'', JStr ''Item not found'')])))
      TransactionsFirst"
  let ?fine = "constant_net (Response 200 (Some (JArr []))) TransactionsFirst"
  have refused: "net ?missing DELETE (API_URL @ ''/transactions/'' @ ''7'')
        = Response 404 (Some (JObj [(''message'', JStr ''Item not found'')])) \<and> \<not> ok 404"
    by (simp add: constant_net_def ok_def)
  have deleted: "net ?fine DELETE (API_URL @ ''/transactions/'' @ ''7'') = Response 200 (Some (JArr []))
      \<and> ok 200"
    by (simp add: constant_net_def ok_def)
  have listed: "net ?fine GET (API_URL @ ''/transactions/'' @ template (Some ''user_1''))
        = Response 200 (Some (JArr []))"
    "net ?fine GET (API_URL @ ''/transactions/summary/'' @ template (Some ''user_1''))
        = Response 200 (Some (JArr []))"
    by (simp_all add: constant_net_def)
  from deleteTransactions_amended [of ?missing "''7''" 404
      "Some (JObj [(''message'', JStr ''Item not found'')])" "Some ''user_1''" initial_state] refused
  have "deleteTransactions ''7'' (Some ''user_1'') ?missing
     = [Fetch DELETE (API_URL @ ''/transactions/'' @ ''7''),
        ConsoleError ''Error deleting transaction'' (Error ''Failed to delete transaction''),
        Alert ''Error'' ''Failed to delete transaction'']"
    by blast
  then have failure: "deleteTransactions ''7'' (Some ''user_1'') ?missing
     = [Fetch DELETE ''https://rn-wallet-szfl.onrender.com/api/transactions/7'',
        ConsoleError ''Error deleting transaction'' (Error ''Failed to delete transaction''),
        Alert ''Error'' ''Failed to delete transaction'']"
    by (simp add: API_URL_def)
  have present: "Some ''user_1'' \<noteq> None \<and> Some ''user_1'' \<noteq> Some []"
    by simp
  from deleteTransactions_amended [of ?fine "''7''" 200 "Some (JArr [])" "Some ''user_1''"
      initial_state] deleted present
  obtain t u where
    trace: "deleteTransactions ''7'' (Some ''user_1'') ?fine
          = [Fetch DELETE (API_URL @ ''/transactions/'' @ ''7''),
             SetIsLoading True,
             Fetch GET (API_URL @ ''/transactions/'' @ template (Some ''user_1'')),
             Fetch GET (API_URL @ ''/transactions/summary/'' @ template (Some ''user_1'')),
             Alert ''Success'' ''Transaction deleted successfully'']
            @ (case completes ?fine of TransactionsFirst \<Rightarrow> [t, u] | SummaryFirst \<Rightarrow> [u, t])
            @ [SetIsLoading False]"
    and t: "\<forall>c d. net ?fine GET (API_URL @ ''/transactions/'' @ template (Some ''user_1''))
                    = Response c (Some d) \<longrightarrow> t = SetTransactions d"
    and u: "\<forall>c d. net ?fine GET (API_URL @ ''/transactions/summary/'' @ template (Some ''user_1''))
                    = Response c (Some d) \<longrightarrow> u = SetSummary d"
    by blast
  from t listed(1) have "t = SetTransactions (JArr [])"
    by blast
  moreover from u listed(2) have "u = SetSummary (JArr [])"
    by blast
  ultimately have success: "deleteTransactions ''7'' (Some ''user_1'') ?fine
     = [Fetch DELETE ''https://rn-wallet-szfl.onrender.com/api/transactions/7'',
        SetIsLoading True,
        Fetch GET ''https://rn-wallet-szfl.onrender.com/api/transactions/user_1'',
        Fetch GET ''https://rn-wallet-szfl.onrender.com/api/transactions/summary/user_1'',
        Alert ''Success'' ''Transaction deleted successfully'',
        SetTransactions (JArr []),
        SetSummary (JArr []),
        SetIsLoading False]"
    using trace by (simp add: API_URL_def constant_net_def)
  have empty: "Some [] = None \<or> Some [] = (Some [] :: string option)"
    by simp
  from deleteTransactions_amended [of ?fine "''7''" 200 "Some (JArr [])" "Some []"
      initial_state] deleted empty
  have "deleteTransactions ''7'' (Some []) ?fine
     = [Fetch DELETE (API_URL @ ''/transactions/'' @ ''7''),
        Alert ''Success'' ''Transaction deleted successfully'']"
    by blast
  then have noop: "deleteTransactions ''7'' (Some []) ?fine
     = [Fetch DELETE ''https://rn-wallet-szfl.onrender.com/api/transactions/7'',
        Alert ''Success'' ''Transaction deleted successfully'']"
    by (simp add: API_URL_def)
  from failure success noop show ?thesis
    by (intro conjI)
qed

text \<open>
  C8 as stated fails: with no \<open>userId\<close> and a success status, the hook shows the alert
  "Success" without any list or summary request, and the state stays as it was.
\<close>

theorem deleteTransactions_counterexample:
  "ok 200
   \<and> deleteTransactions ''7'' None (constant_net (Response 200 (Some (JArr []))) TransactionsFirst)
     = [Fetch DELETE ''https://rn-wallet-szfl.onrender.com/api/transactions/7'',
        Alert ''Success'' ''Transaction deleted successfully'']
   \<and> run initial_state
        (deleteTransactions ''7'' None (constant_net (Response 200 (Some (JArr []))) TransactionsFirst))
     = initial_state"
  by (simp add: ok_def deleteTransactions_def constant_net_def loadData_sync_def
      loadData_async_def API_URL_def run_Cons run_Nil)

text \<open>
  C9. \<open>fetchTransaction\<close> and \<open>fetchSummary\<close> catch every failure and their
  promises are always fulfilled, so \<open>Promise.all\<close> over them is fulfilled whichever
  settles first, and \<open>loadData\<close> never logs "Error loading data" (its \<open>catch\<close> is
  not reached). When \<open>userId\<close> passes the guard of \<open>loadData\<close>, each of the two
  requests runs to its one final event, the setter or the logged error, and both events
  come after the requests were issued and before the one event that clears the loading
  flag, which is the last. When it does not, nothing runs and the flag is not touched.
\<close>

theorem fetches_never_reject:
  "snd (snd (fetchTransaction userId e)) = Inr ()
   \<and> snd (snd (fetchSummary userId e)) = Inr ()
   \<and> fst (snd (promise_all ord (snd (fetchTransaction userId e)) (snd (fetchSummary userId e))))
       = Inr ()
   \<and> ConsoleError ''Error loading data'' error \<notin> set (loadData userId e)
   \<and> (truthy_str userId \<longrightarrow>
        (\<exists>t u. fst (snd (fetchTransaction userId e)) = [t]
           \<and> fst (snd (fetchSummary userId e)) = [u]
           \<and> ((\<exists>d. t = SetTransactions d)
                \<or> (\<exists>err. t = ConsoleError ''Error fetching transactions'' err))
           \<and> ((\<exists>d. u = SetSummary d)
                \<or> (\<exists>err. u = ConsoleError ''Error fetching transactions'' err))
           \<and> loadData userId e
               = [SetIsLoading True,
                  Fetch GET (API_URL @ ''/transactions/'' @ template userId),
                  Fetch GET (API_URL @ ''/transactions/summary/'' @ template userId)]
                 @ (case completes e of TransactionsFirst \<Rightarrow> [t, u] | SummaryFirst \<Rightarrow> [u, t])
                 @ [SetIsLoading False]))
   \<and> (\<not> truthy_str userId \<longrightarrow> loadData userId e = [])"
proof -
  have f1: "snd (snd (fetchTransaction userId e)) = Inr ()"
    by (rule fetchTransaction_fulfilled)
  have f2: "snd (snd (fetchSummary userId e)) = Inr ()"
    by (rule fetchSummary_fulfilled)
  have all: "fst (snd (promise_all ord (snd (fetchTransaction userId e))
      (snd (fetchSummary userId e)))) = Inr ()"
    by (simp add: promise_all_fulfilled [OF f1 f2])
  have falsy: "\<not> truthy_str userId \<longrightarrow> loadData userId e = []"
    by (simp add: loadData_falsy)
  have truthy: "\<exists>t u. fst (snd (fetchTransaction userId e)) = [t]
           \<and> fst (snd (fetchSummary userId e)) = [u]
           \<and> ((\<exists>d. t = SetTransactions d)
                \<or> (\<exists>err. t = ConsoleError ''Error fetching transactions'' err))
           \<and> ((\<exists>d. u = SetSummary d)
                \<or> (\<exists>err. u = ConsoleError ''Error fetching transactions'' err))
           \<and> loadData userId e
               = [SetIsLoading True,
                  Fetch GET (API_URL @ ''/transactions/'' @ template userId),
                  Fetch GET (API_URL @ ''/transactions/summary/'' @ template userId)]
                 @ (case completes e of TransactionsFirst \<Rightarrow> [t, u] | SummaryFirst \<Rightarrow> [u, t])
                 @ [SetIsLoading False]"
    if "truthy_str userId"
    using loadData_trace [OF that, of e] by blast
  have no_catch: "ConsoleError ''Error loading data'' error \<notin> set (loadData userId e)"
  proof (cases "truthy_str userId")
    case False
    with falsy show ?thesis by simp
  next
    case True
    from truthy [OF True] obtain t u where
      kinds: "(\<exists>d. t = SetTransactions d)
                \<or> (\<exists>err. t = ConsoleError ''Error fetching transactions'' err)"
        "(\<exists>d. u = SetSummary d)
                \<or> (\<exists>err. u = ConsoleError ''Error fetching transactions'' err)"
      and trace: "loadData userId e
               = [SetIsLoading True,
                  Fetch GET (API_URL @ ''/transactions/'' @ template userId),
                  Fetch GET (API_URL @ ''/transactions/summary/'' @ template userId)]
                 @ (case completes e of TransactionsFirst \<Rightarrow> [t, u] | SummaryFirst \<Rightarrow> [u, t])
                 @ [SetIsLoading False]"
      by blast
    from kinds show ?thesis
      unfolding trace by (cases "completes e") auto
  qed
  from f1 f2 all no_catch truthy falsy show ?thesis
    by blast
qed

theorem fetches_never_reject_witness:
  "(\<exists>t u. fst (snd (fetchTransaction (Some ''user_1'')
               (constant_net (NetworkError ''Network request failed'') SummaryFirst))) = [t]
      \<and> fst (snd (fetchSummary (Some ''user_1'')
               (constant_net (NetworkError ''Network request failed'') SummaryFirst))) = [u]
      \<and> loadData (Some ''user_1'')
            (constant_net (NetworkError ''Network request failed'') SummaryFirst)
          = [SetIsLoading True,
             Fetch GET ''https://rn-wallet-szfl.onrender.com/api/transactions/user_1'',
             Fetch GET ''https://rn-wallet-szfl.onrender.com/api/transactions/summary/user_1'',
             u, t, SetIsLoading False])
   \<and> ConsoleError ''Error loading data'' (Error ''Network request failed'')
       \<notin> set (loadData (Some ''user_1'')
            (constant_net (NetworkError ''Network request failed'') SummaryFirst))"
proof -
  have present: "truthy_str (Some ''user_1'')"
    by simp
  from fetches_never_reject [of "Some ''user_1''"
      "constant_net (NetworkError ''Network request failed'') SummaryFirst"
      SummaryFirst "Error ''Network request failed''"] present
  obtain t u where
    "fst (snd (fetchTransaction (Some ''user_1'')
               (constant_net (NetworkError ''Network request failed'') SummaryFirst))) = [t]"
    and "fst (snd (fetchSummary (Some ''user_1'')
               (constant_net (NetworkError ''Network request failed'') SummaryFirst))) = [u]"
    and "loadData (Some ''user_1'')
            (constant_net (NetworkError ''Network request failed'') SummaryFirst)
          = [SetIsLoading True,
             Fetch GET (API_URL @ ''/transactions/'' @ template (Some ''user_1'')),
             Fetch GET (API_URL @ ''/transactions/summary/'' @ template (Some ''user_1''))]
            @ (case completes (constant_net (NetworkError ''Network request failed'') SummaryFirst)
               of TransactionsFirst \<Rightarrow> [t, u] | SummaryFirst \<Rightarrow> [u, t])
            @ [SetIsLoading False]"
    and quiet: "ConsoleError ''Error loading data'' (Error ''Network request failed'')
       \<notin> set (loadData (Some ''user_1'')
            (constant_net (NetworkError ''Network request failed'') SummaryFirst))"
    by blast
  then have "fst (snd (fetchTransaction (Some ''user_1'')
               (constant_net (NetworkError ''Network request failed'') SummaryFirst))) = [t]
      \<and> fst (snd (fetchSummary (Some ''user_1'')
               (constant_net (NetworkError ''Network request failed'') SummaryFirst))) = [u]
      \<and> loadData (Some ''user_1'')
            (constant_net (NetworkError ''Network request failed'') SummaryFirst)
          = [SetIsLoading True,
             Fetch GET ''https://rn-wallet-szfl.onrender.com/api/transactions/user_1'',
             Fetch GET ''https://rn-wallet-szfl.onrender.com/api/transactions/summary/user_1'',
             u, t, SetIsLoading False]"
    by (simp add: constant_net_def API_URL_def)
  with quiet show ?thesis
    by blast
qed

text \<open>
  C10. Neither \<open>fetchTransaction\<close> nor \<open>fetchSummary\<close> looks at the status of the
  response: whatever the status, a body that parses as JSON is passed to the setter and
  replaces the \<open>transactions\<close> (\<open>summary\<close>) of the state, the rest of the state
  staying as it was.
\<close>

theorem fetch_ignores_status:
  "(net e GET (API_URL @ ''/transactions/'' @ template userId) = Response code (Some data) \<longrightarrow>
      snd (fetchTransaction userId e) = ([SetTransactions data], Inr ())
      \<and> run st (fst (snd (fetchTransaction userId e))) = st\<lparr>transactions := data\<rparr>)
   \<and> (net e GET (API_URL @ ''/transactions/summary/'' @ template userId) = Response code (Some data) \<longrightarrow>
      snd (fetchSummary userId e) = ([SetSummary data], Inr ())
      \<and> run st (fst (snd (fetchSummary userId e))) = st\<lparr>summary := data\<rparr>)"
  by (simp add: fetchTransaction_settles fetchSummary_settles run_Cons run_Nil)

theorem fetch_ignores_status_witness:
  "transactions (run initial_state (fst (snd (fetchTransaction (Some ''user_1'')
       (constant_net (Response 429 (Some (JObj [(''message'', JStr ''Too many requests'')])))
          TransactionsFirst)))))
     = JObj [(''message'', JStr ''Too many requests'')]
   \<and> summary (run initial_state (fst (snd (fetchSummary (Some ''user_1'')
       (constant_net (Response 429 (Some (JObj [(''message'', JStr ''Too many requests'')])))
          TransactionsFirst)))))
     = JObj [(''message'', JStr ''Too many requests'')]"
  using fetch_ignores_status [of
      "constant_net (Response 429 (Some (JObj [(''message'', JStr ''Too many requests'')])))
         TransactionsFirst"
      "Some ''user_1''" 429 "JObj [(''message'', JStr ''Too many requests'')]" initial_state]
  by (auto simp: constant_net_def)

end
